theory Spec2Isabelle
  imports Complex_Main
begin

section \<open>JavaScript values\<close>

text \<open>
  The values \<^verbatim>\<open>src/lib/shopify/fulfillment.js\<close> handles: what the collaborator
  \<^verbatim>\<open>callShopifyAdmin\<close> returns (a parsed JSON body), what it may throw, and the
  object literals the two functions return. A finite number is a rational; \<open>JInfinity\<close>
  is the number \<^verbatim>\<open>Infinity\<close>, which no JSON text denotes but \<^verbatim>\<open>parseInt\<close> returns
  for a run of digits beyond the range of a double (NaN and negative infinity arise
  nowhere in the program). An object is its list of properties in insertion order, read with
  \<open>map_of\<close>. Strings are lists of characters; a character outside ASCII stands as
  its UTF-8 bytes, none of which is a parenthesis or a digit.
\<close>

datatype jsval =
    JUndefined
  | JNull
  | JBool bool
  | JNum rat
  | JInfinity
  | JStr string
  | JArr "jsval list"
  | JObj "(string \<times> jsval) list"

text \<open>
  The two kinds of \<^verbatim>\<open>TypeError\<close> the code can raise by itself: reading a property of
  \<^verbatim>\<open>undefined\<close> or \<^verbatim>\<open>null\<close>, and calling something that is not a function (the
  string is the callee as written in the source). The wording of the message is the
  JavaScript engine's, so it is a parameter of the model.
\<close>

datatype type_error =
    ReadOfNullish jsval string
  | NotAFunction string

type_synonym engine = "type_error \<Rightarrow> string"

text \<open>
  What a \<^verbatim>\<open>throw\<close> carries: an \<^verbatim>\<open>Error\<close> instance (of any subclass) with its
  textual message, or any other value.
\<close>

datatype thrown =
    Error string
  | Thrown jsval

text \<open>The outcome of an expression: \<open>Inl\<close> is a throw, \<open>Inr\<close> a value.\<close>

type_synonym 'a outcome = "thrown + 'a"

text \<open>Node's (V8's) wording of the two messages.\<close>

fun v8 :: engine where
  "v8 (ReadOfNullish v k) =
     ''Cannot read properties of '' @ (if v = JNull then ''null'' else ''undefined'') @
     '' (reading '' @ [CHR 0x27] @ k @ [CHR 0x27] @ '')''"
| "v8 (NotAFunction callee) = callee @ '' is not a function''"

text \<open>\<^verbatim>\<open>ToBoolean\<close>: what \<^verbatim>\<open>||\<close>, \<^verbatim>\<open>? :\<close> and \<^verbatim>\<open>if\<close> test.\<close>

fun truthy :: "jsval \<Rightarrow> bool" where
  "truthy JUndefined = False"
| "truthy JNull = False"
| "truthy (JBool b) = b"
| "truthy (JNum n) = (n \<noteq> 0)"
| "truthy JInfinity = True"
| "truthy (JStr s) = (s \<noteq> [])"
| "truthy (JArr xs) = True"
| "truthy (JObj kvs) = True"

text \<open>
  The property read \<^verbatim>\<open>v.k\<close>, for the names the program reads from data
  (\<^verbatim>\<open>fulfillments\<close>, \<^verbatim>\<open>order\<close>, \<^verbatim>\<open>id\<close>, \<^verbatim>\<open>name\<close>, \<^verbatim>\<open>message\<close>,
  \<^verbatim>\<open>length\<close>): it throws on \<^verbatim>\<open>undefined\<close> and \<^verbatim>\<open>null\<close>, looks an object's own
  property up, knows the \<^verbatim>\<open>length\<close> of an array and of a string, and is
  \<^verbatim>\<open>undefined\<close> otherwise. (The program reads the length of a string only for a
  \<^verbatim>\<open>count\<close> that it drops at once, since a string has no \<^verbatim>\<open>map\<close>.) A
  property is read once where the source reads it several times: data has no getters.
\<close>

fun getProp :: "engine \<Rightarrow> jsval \<Rightarrow> string \<Rightarrow> jsval outcome" where
  "getProp eng JUndefined k = Inl (Error (eng (ReadOfNullish JUndefined k)))"
| "getProp eng JNull k = Inl (Error (eng (ReadOfNullish JNull k)))"
| "getProp eng (JObj kvs) k = Inr (case map_of kvs k of Some v \<Rightarrow> v | None \<Rightarrow> JUndefined)"
| "getProp eng (JArr xs) k = Inr (if k = ''length'' then JNum (of_nat (length xs)) else JUndefined)"
| "getProp eng (JStr s) k = Inr (if k = ''length'' then JNum (of_nat (length s)) else JUndefined)"
| "getProp eng (JBool b) k = Inr JUndefined"
| "getProp eng (JNum n) k = Inr JUndefined"
| "getProp eng JInfinity k = Inr JUndefined"

text \<open>
  \<^verbatim>\<open>Array.prototype.map\<close> with a callback that may throw: the first throw ends the
  traversal.
\<close>

fun mapM :: "('a \<Rightarrow> 'b outcome) \<Rightarrow> 'a list \<Rightarrow> 'b list outcome" where
  "mapM f [] = Inr []"
| "mapM f (x # xs) =
     (case f x of
        Inl e \<Rightarrow> Inl e
      | Inr y \<Rightarrow> (case mapM f xs of Inl e \<Rightarrow> Inl e | Inr ys \<Rightarrow> Inr (y # ys)))"

text \<open>
  The call \<^verbatim>\<open>v.map(f => f.id)\<close>; \<open>callee\<close> is the text of \<^verbatim>\<open>v.map\<close> in the source.
  Only an array has a \<^verbatim>\<open>map\<close> method; a property \<^verbatim>\<open>map\<close> of a JSON object is data,
  not a function.
\<close>

fun mapIds :: "engine \<Rightarrow> string \<Rightarrow> jsval \<Rightarrow> jsval outcome" where
  "mapIds eng callee (JArr xs) =
     (case mapM (\<lambda>f. getProp eng f ''id'') xs of Inl e \<Rightarrow> Inl e | Inr ids \<Rightarrow> Inr (JArr ids))"
| "mapIds eng callee JUndefined = Inl (Error (eng (ReadOfNullish JUndefined ''map'')))"
| "mapIds eng callee JNull = Inl (Error (eng (ReadOfNullish JNull ''map'')))"
| "mapIds eng callee v = Inl (Error (eng (NotAFunction callee)))"

section \<open>Status extraction\<close>

text \<open>\<^verbatim>\<open>\d\<close> without the unicode flag: the ten ASCII digits.\<close>

definition isDigit :: "char \<Rightarrow> bool" where
  "isDigit c = (c \<in> set ''0123456789'')"

definition digitVal :: "char \<Rightarrow> nat" where
  "digitVal c = of_char c - 48"

text \<open>
  The pattern \<^verbatim>\<open>\((\d+)\)\<close> tried at the start of \<open>s\<close>; the result is capture
  group 1. The greedy \<^verbatim>\<open>\d+\<close> takes the longest run of digits; giving digits back can
  never help, since the character after a shorter run is a digit and not \<^verbatim>\<open>)\<close>.
\<close>

definition matchHere :: "string \<Rightarrow> string option" where
  "matchHere s =
     (case s of
        [] \<Rightarrow> None
      | c # rest \<Rightarrow>
          if c = CHR ''(''
          then (let ds = takeWhile isDigit rest; r = dropWhile isDigit rest
                in if ds \<noteq> [] \<and> r \<noteq> [] \<and> hd r = CHR '')'' then Some ds else None)
          else None)"

text \<open>
  \<^verbatim>\<open>message.match(/\((\d+)\)/)\<close>, then \<^verbatim>\<open>[1]\<close>: the pattern has no \<^verbatim>\<open>g\<close> flag, so
  the match is the one at the leftmost position where the pattern matches; \<open>None\<close> is
  the \<^verbatim>\<open>null\<close> of no match.
\<close>

fun statusMatch :: "string \<Rightarrow> string option" where
  "statusMatch [] = None"
| "statusMatch (c # cs) =
     (case matchHere (c # cs) of Some ds \<Rightarrow> Some ds | None \<Rightarrow> statusMatch cs)"

text \<open>
  \<^verbatim>\<open>parseInt(ds, 10)\<close> on a non-empty string of digits (all the pattern captures).
  ECMAScript first takes the integer the digits denote (\<open>mathInt\<close>), then its Number
  value: the nearest double, a tie going to the even significand, and \<^verbatim>\<open>Infinity\<close>
  when that rounding reaches \<open>2 ^ 1024\<close>. Up to \<open>2 ^ 53\<close> every integer is a double.
  Above, with \<open>e\<close> the number of bits beyond 53, the doubles are the multiples of
  \<open>2 ^ e\<close>. (The standard lets an implementation zero the digits after the twentieth
  before rounding; the model rounds the integer itself.)
\<close>

definition mathInt :: "string \<Rightarrow> nat" where
  "mathInt ds = foldl (\<lambda>n c. 10 * n + digitVal c) 0 ds"

text \<open>The number of binary digits of \<open>n\<close>.\<close>

fun bitLength :: "nat \<Rightarrow> nat" where
  "bitLength n = (if n = 0 then 0 else Suc (bitLength (n div 2)))"

declare bitLength.simps [simp del]

definition roundToDouble :: "nat \<Rightarrow> jsval" where
  "roundToDouble n =
     (if n < 2 ^ 53 then JNum (of_nat n)
      else (let e = bitLength n - 53;
                q = n div 2 ^ e;
                r = n mod 2 ^ e;
                m = (if 2 ^ (e - 1) < r \<or> (r = 2 ^ (e - 1) \<and> odd q) then q + 1 else q)
            in if 2 ^ 1024 \<le> m * 2 ^ e then JInfinity else JNum (of_nat (m * 2 ^ e))))"

definition parseInt10 :: "string \<Rightarrow> jsval" where
  "parseInt10 ds = roundToDouble (mathInt ds)"

text \<open>
  \<^verbatim>\<open>error.message.match(...)\<close> in a \<^verbatim>\<open>catch\<close> block: the message read from what was
  thrown, and the \<^verbatim>\<open>match\<close> method, which only a string has.
\<close>

fun messageOf :: "engine \<Rightarrow> thrown \<Rightarrow> jsval outcome" where
  "messageOf eng (Error m) = Inr (JStr m)"
| "messageOf eng (Thrown v) = getProp eng v ''message''"

fun matchStatus :: "engine \<Rightarrow> jsval \<Rightarrow> string option outcome" where
  "matchStatus eng (JStr m) = Inr (statusMatch m)"
| "matchStatus eng JUndefined = Inl (Error (eng (ReadOfNullish JUndefined ''match'')))"
| "matchStatus eng JNull = Inl (Error (eng (ReadOfNullish JNull ''match'')))"
| "matchStatus eng v = Inl (Error (eng (NotAFunction ''error.message.match'')))"

section \<open>The two functions\<close>

text \<open>
  The collaborator \<^verbatim>\<open>callShopifyAdmin\<close> is a parameter: a function from the path to
  the outcome of awaiting its promise. \<open>orderId\<close> is the text the template literal puts
  into the path. A result \<open>Inl\<close> of either function is an exception reaching the
  caller (a rejected promise).
\<close>

type_synonym admin = "string \<Rightarrow> jsval outcome"

subsection \<open>getFulfillmentOrders\<close>

text \<open>The body of \<^verbatim>\<open>try\<close> after the call: the object literal, field by field.\<close>

definition getFulfillmentOrders_try :: "engine \<Rightarrow> jsval \<Rightarrow> jsval outcome" where
  "getFulfillmentOrders_try eng response =
     (case getProp eng response ''fulfillments'' of
        Inl e \<Rightarrow> Inl e
      | Inr fs \<Rightarrow>
          (case (if truthy fs then getProp eng fs ''length'' else Inr (JNum 0)) of
             Inl e \<Rightarrow> Inl e
           | Inr cnt \<Rightarrow>
               (case (if truthy fs then mapIds eng ''response.fulfillments.map'' fs
                      else Inr (JArr [])) of
                  Inl e \<Rightarrow> Inl e
                | Inr ids \<Rightarrow>
                    Inr (JObj
                      [(''success'', JBool True),
                       (''httpStatus'', JNum 200),
                       (''fulfillments'', if truthy fs then fs else JArr []),
                       (''count'', cnt),
                       (''fulfillmentIds'', ids),
                       (''rawResponse'', response)]))))"

text \<open>The \<^verbatim>\<open>catch\<close> block.\<close>

definition getFulfillmentOrders_catch :: "engine \<Rightarrow> thrown \<Rightarrow> jsval outcome" where
  "getFulfillmentOrders_catch eng error =
     (case messageOf eng error of
        Inl e \<Rightarrow> Inl e
      | Inr message \<Rightarrow>
          (case matchStatus eng message of
             Inl e \<Rightarrow> Inl e
           | Inr sm \<Rightarrow>
               (let httpStatus =
                      (case sm of Some ds \<Rightarrow> parseInt10 ds | None \<Rightarrow> JNull)
                in if httpStatus = JNum 401 \<or> httpStatus = JNum 403
                   then Inr (JObj
                     [(''success'', JBool False),
                      (''httpStatus'', httpStatus),
                      (''error'', JStr ''SHOPIFY_ADMIN_AUTH_ERROR''),
                      (''message'', message),
                      (''fulfillments'', JArr []),
                      (''count'', JNum 0),
                      (''fulfillmentIds'', JArr [])])
                   else Inr (JObj
                     [(''success'', JBool False),
                      (''httpStatus'', if truthy httpStatus then httpStatus else JNum 500),
                      (''error'', JStr ''SHOPIFY_FULFILLMENT_FETCH_ERROR''),
                      (''message'', message),
                      (''fulfillments'', JArr []),
                      (''count'', JNum 0),
                      (''fulfillmentIds'', JArr [])]))))"

definition getFulfillmentOrders :: "engine \<Rightarrow> admin \<Rightarrow> string \<Rightarrow> jsval outcome" where
  "getFulfillmentOrders eng callShopifyAdmin orderId =
     (case (case callShopifyAdmin (''/orders/'' @ orderId @ ''/fulfillments.json'') of
              Inl e \<Rightarrow> Inl e
            | Inr response \<Rightarrow> getFulfillmentOrders_try eng response) of
        Inr result \<Rightarrow> Inr result
      | Inl error \<Rightarrow> getFulfillmentOrders_catch eng error)"

subsection \<open>getFulfillments\<close>

definition getFulfillments_try :: "engine \<Rightarrow> jsval \<Rightarrow> jsval outcome" where
  "getFulfillments_try eng response =
     (case getProp eng response ''order'' of
        Inl e \<Rightarrow> Inl e
      | Inr ro \<Rightarrow>
          (let order = (if truthy ro then ro else JObj []) in
           case getProp eng order ''fulfillments'' of
             Inl e \<Rightarrow> Inl e
           | Inr ofs \<Rightarrow>
               (let fulfillments = (if truthy ofs then ofs else JArr []) in
                case getProp eng fulfillments ''length'' of
                  Inl e \<Rightarrow> Inl e
                | Inr cnt \<Rightarrow>
                    (case mapIds eng ''fulfillments.map'' fulfillments of
                       Inl e \<Rightarrow> Inl e
                     | Inr ids \<Rightarrow>
                         (case getProp eng order ''id'' of
                            Inl e \<Rightarrow> Inl e
                          | Inr oid \<Rightarrow>
                              (case getProp eng order ''name'' of
                                 Inl e \<Rightarrow> Inl e
                               | Inr oname \<Rightarrow>
                                   Inr (JObj
                                     [(''success'', JBool True),
                                      (''httpStatus'', JNum 200),
                                      (''fulfillments'', fulfillments),
                                      (''count'', cnt),
                                      (''fulfillmentIds'', ids),
                                      (''orderId'', oid),
                                      (''orderName'', oname),
                                      (''rawResponse'', response)])))))))"

definition getFulfillments_catch :: "engine \<Rightarrow> thrown \<Rightarrow> jsval outcome" where
  "getFulfillments_catch eng error =
     (case messageOf eng error of
        Inl e \<Rightarrow> Inl e
      | Inr message \<Rightarrow>
          (case matchStatus eng message of
             Inl e \<Rightarrow> Inl e
           | Inr sm \<Rightarrow>
               (let httpStatus =
                      (case sm of Some ds \<Rightarrow> parseInt10 ds | None \<Rightarrow> JNull)
                in if httpStatus = JNum 401 \<or> httpStatus = JNum 403
                   then Inr (JObj
                     [(''success'', JBool False),
                      (''httpStatus'', httpStatus),
                      (''error'', JStr ''SHOPIFY_ADMIN_AUTH_ERROR''),
                      (''message'', message),
                      (''fulfillments'', JArr []),
                      (''count'', JNum 0),
                      (''fulfillmentIds'', JArr [])])
                   else Inr (JObj
                     [(''success'', JBool False),
                      (''httpStatus'', if truthy httpStatus then httpStatus else JNum 500),
                      (''error'', JStr ''SHOPIFY_FULFILLMENT_FETCH_ERROR''),
                      (''message'', message),
                      (''fulfillments'', JArr []),
                      (''count'', JNum 0),
                      (''fulfillmentIds'', JArr [])]))))"

definition getFulfillments :: "engine \<Rightarrow> admin \<Rightarrow> string \<Rightarrow> jsval outcome" where
  "getFulfillments eng callShopifyAdmin orderId =
     (case (case callShopifyAdmin (''/orders/'' @ orderId @ ''.json'') of
              Inl e \<Rightarrow> Inl e
            | Inr response \<Rightarrow> getFulfillments_try eng response) of
        Inr result \<Rightarrow> Inr result
      | Inl error \<Rightarrow> getFulfillments_catch eng error)"

section \<open>Vocabulary of the properties\<close>

text \<open>
  A parenthesized decimal number is \<^verbatim>\<open>(\<close>, one or more decimal digits, \<^verbatim>\<open>)\<close>.
  A string has one when it can be cut around one; the first one is the one with no
  other in the text before it.
\<close>

definition digits :: "string \<Rightarrow> bool" where
  "digits ds = (ds \<noteq> [] \<and> list_all isDigit ds)"

definition has_paren_number :: "string \<Rightarrow> bool" where
  "has_paren_number s = (\<exists>pre ds post. s = pre @ ''('' @ ds @ '')'' @ post \<and> digits ds)"

definition first_paren_number :: "string \<Rightarrow> string \<Rightarrow> bool" where
  "first_paren_number s ds =
     (digits ds \<and> (\<exists>pre post. s = pre @ ''('' @ ds @ '')'' @ post \<and> \<not> has_paren_number pre))"

text \<open>
  What a caller reads as \<^verbatim>\<open>v.k\<close> from a value that is neither \<^verbatim>\<open>undefined\<close> nor
  \<^verbatim>\<open>null\<close> (and \<^verbatim>\<open>undefined\<close> for those two, as \<^verbatim>\<open>v?.k\<close>).
\<close>

fun field :: "jsval \<Rightarrow> string \<Rightarrow> jsval" where
  "field (JObj kvs) k = (case map_of kvs k of Some v \<Rightarrow> v | None \<Rightarrow> JUndefined)"
| "field (JArr xs) k = (if k = ''length'' then JNum (of_nat (length xs)) else JUndefined)"
| "field (JStr s) k = (if k = ''length'' then JNum (of_nat (length s)) else JUndefined)"
| "field v k = JUndefined"

definition nullish :: "jsval \<Rightarrow> bool" where
  "nullish v = (v = JUndefined \<or> v = JNull)"

fun isNumber :: "jsval \<Rightarrow> bool" where
  "isNumber (JNum n) = True"
| "isNumber JInfinity = True"
| "isNumber v = False"

text \<open>The shape of both functions' failure results.\<close>

abbreviation failure :: "jsval \<Rightarrow> string \<Rightarrow> string \<Rightarrow> jsval" where
  "failure status code message \<equiv>
     JObj [(''success'', JBool False),
           (''httpStatus'', status),
           (''error'', JStr code),
           (''message'', JStr message),
           (''fulfillments'', JArr []),
           (''count'', JNum 0),
           (''fulfillmentIds'', JArr [])]"

text \<open>
  Collaborators for the concrete scenarios: one that returns a value, one that fails with
  an \<^verbatim>\<open>Error\<close>, one that throws some other value.
\<close>

definition returning :: "jsval \<Rightarrow> admin" where
  "returning response path = Inr response"

definition failing :: "string \<Rightarrow> admin" where
  "failing message path = Inl (Error message)"

definition throwing :: "jsval \<Rightarrow> admin" where
  "throwing v path = Inl (Thrown v)"

text \<open>A shop with one order, number 123, that has two fulfillments.\<close>

definition shop :: admin where
  "shop path =
     (if path = ''/orders/123/fulfillments.json''
      then Inr (JObj [(''fulfillments'', JArr [JObj [(''id'', JNum 1)], JObj [(''id'', JNum 2)]])])
      else if path = ''/orders/123.json''
      then Inr (JObj [(''order'',
                  JObj [(''id'', JNum 123), (''name'', JStr ''#1001''),
                        (''fulfillments'', JArr [JObj [(''id'', JNum 1)], JObj [(''id'', JNum 2)]])])])
      else Inl (Error ''Shopify Admin API error (404): Not Found''))"

section \<open>The pattern finds the first parenthesized number\<close>

lemma not_isDigit_paren [simp]: "\<not> isDigit CHR ''(''" "\<not> isDigit CHR '')''"
  by (simp_all add: isDigit_def)

lemma matchHere_Nil [simp]: "matchHere [] = None"
  by (simp add: matchHere_def)

lemma matchHere_digits:
  assumes "digits ds"
  shows "matchHere (CHR ''('' # ds @ CHR '')'' # post) = Some ds"
proof -
  from assms have all: "\<forall>c\<in>set ds. isDigit c" and ne: "ds \<noteq> []"
    by (simp_all add: digits_def list_all_iff)
  from all have "takeWhile isDigit (ds @ CHR '')'' # post) = ds"
    by simp
  moreover from all have "dropWhile isDigit (ds @ CHR '')'' # post) = CHR '')'' # post"
    by simp
  ultimately show ?thesis using ne by (simp add: matchHere_def)
qed

lemma matchHere_SomeD:
  assumes "matchHere s = Some ds"
  shows "\<exists>post. s = CHR ''('' # ds @ CHR '')'' # post \<and> digits ds"
proof (cases s)
  case Nil
  with assms show ?thesis by simp
next
  case (Cons c rest)
  let ?r = "dropWhile isDigit rest"
  from assms Cons have c: "c = CHR ''(''" and ds: "ds = takeWhile isDigit rest"
    and ne: "ds \<noteq> []" and r: "?r \<noteq> []" "hd ?r = CHR '')''"
    by (auto simp: matchHere_def Let_def split: if_splits)
  from r have "?r = CHR '')'' # tl ?r" by (cases ?r) auto
  with ds have "rest = ds @ CHR '')'' # tl ?r"
    by (metis takeWhile_dropWhile_id)
  moreover have "digits ds" using ne ds
    by (auto simp: digits_def list_all_iff dest: set_takeWhileD)
  ultimately show ?thesis using Cons c by blast
qed

text \<open>
  Text that starts with \<^verbatim>\<open>(\<close>, appended to \<open>p\<close>, neither creates nor destroys a match
  that starts inside \<open>p\<close>.
\<close>

lemma matchHere_append_paren:
  assumes "p \<noteq> []"
  shows "matchHere (p @ CHR ''('' # x) = matchHere p"
proof (cases p)
  case Nil
  with assms show ?thesis by simp
next
  case (Cons c rest)
  show ?thesis
  proof (cases "\<forall>d\<in>set rest. isDigit d")
    case True
    then show ?thesis using Cons
      by (simp add: matchHere_def)
  next
    case False
    then obtain d where d: "d \<in> set rest" "\<not> isDigit d" by blast
    then have "takeWhile isDigit (rest @ CHR ''('' # x) = takeWhile isDigit rest"
      by simp
    moreover from d
    have "dropWhile isDigit (rest @ CHR ''('' # x) = dropWhile isDigit rest @ CHR ''('' # x"
      by simp
    moreover from d have "dropWhile isDigit rest \<noteq> []"
      by auto
    ultimately show ?thesis using Cons
      by (simp add: matchHere_def Let_def)
  qed
qed

lemma statusMatch_append_paren:
  "statusMatch (p @ CHR ''('' # x) =
     (case statusMatch p of Some d \<Rightarrow> Some d | None \<Rightarrow> statusMatch (CHR ''('' # x))"
proof (induction p)
  case Nil
  show ?case by simp
next
  case (Cons c p)
  have "matchHere ((c # p) @ CHR ''('' # x) = matchHere (c # p)"
    by (rule matchHere_append_paren) simp
  with Cons show ?case by (simp split: option.splits)
qed

lemma statusMatch_SomeD:
  "statusMatch s = Some ds \<Longrightarrow>
     \<exists>pre post. s = pre @ ''('' @ ds @ '')'' @ post \<and> digits ds \<and> statusMatch pre = None"
proof (induction s)
  case Nil
  then show ?case by simp
next
  case (Cons c cs)
  show ?case
  proof (cases "matchHere (c # cs)")
    case (Some d)
    with Cons.prems have "d = ds" by simp
    with Some obtain post where "c # cs = CHR ''('' # ds @ CHR '')'' # post" "digits ds"
      using matchHere_SomeD by blast
    then have "c # cs = [] @ ''('' @ ds @ '')'' @ post \<and> digits ds \<and> statusMatch [] = None"
      by simp
    then show ?thesis by blast
  next
    case None
    with Cons.prems have "statusMatch cs = Some ds" by simp
    from Cons.IH [OF this] obtain pre post
      where cs: "cs = pre @ ''('' @ ds @ '')'' @ post" and d: "digits ds"
        and pre: "statusMatch pre = None"
      by blast
    have "matchHere ((c # pre) @ CHR ''('' # ds @ '')'' @ post) = matchHere (c # pre)"
      by (rule matchHere_append_paren) simp
    with None cs have "matchHere (c # pre) = None" by simp
    with pre have "statusMatch (c # pre) = None" by simp
    moreover from cs have "c # cs = (c # pre) @ ''('' @ ds @ '')'' @ post" by simp
    ultimately show ?thesis using d by blast
  qed
qed

lemma statusMatch_None_iff: "statusMatch s = None \<longleftrightarrow> \<not> has_paren_number s"
proof
  assume n: "statusMatch s = None"
  show "\<not> has_paren_number s"
  proof
    assume "has_paren_number s"
    then obtain pre ds post where s: "s = pre @ ''('' @ ds @ '')'' @ post" and d: "digits ds"
      unfolding has_paren_number_def by blast
    have "statusMatch s \<noteq> None"
      using matchHere_digits [OF d, of post] unfolding s
      by (simp add: statusMatch_append_paren split: option.splits)
    with n show False by simp
  qed
next
  assume h: "\<not> has_paren_number s"
  show "statusMatch s = None"
  proof (rule ccontr)
    assume "statusMatch s \<noteq> None"
    then obtain ds where "statusMatch s = Some ds" by blast
    from statusMatch_SomeD [OF this] have "has_paren_number s"
      unfolding has_paren_number_def by blast
    with h show False by simp
  qed
qed

lemma statusMatch_Some_iff: "statusMatch s = Some ds \<longleftrightarrow> first_paren_number s ds"
proof
  assume "statusMatch s = Some ds"
  from statusMatch_SomeD [OF this] show "first_paren_number s ds"
    unfolding first_paren_number_def by (auto simp: statusMatch_None_iff)
next
  assume "first_paren_number s ds"
  then obtain pre post where s: "s = pre @ ''('' @ ds @ '')'' @ post" and d: "digits ds"
    and pre: "statusMatch pre = None"
    unfolding first_paren_number_def by (auto simp: statusMatch_None_iff)
  show "statusMatch s = Some ds"
    using matchHere_digits [OF d, of post] pre unfolding s
    by (simp add: statusMatch_append_paren)
qed

section \<open>The number \<^verbatim>\<open>parseInt\<close> returns\<close>

lemma bitLength_upper: "n < 2 ^ bitLength n"
proof (induction n rule: bitLength.induct)
  case (1 n)
  show ?case
  proof (cases "n = 0")
    case True
    then show ?thesis by (simp add: bitLength.simps)
  next
    case False
    with 1 have "n div 2 < 2 ^ bitLength (n div 2)" by simp
    then have "n < 2 * 2 ^ bitLength (n div 2)" by linarith
    with False show ?thesis by (simp add: bitLength.simps [of n])
  qed
qed

lemma bitLength_lower: "n \<noteq> 0 \<Longrightarrow> 2 ^ (bitLength n - 1) \<le> n"
proof (induction n rule: bitLength.induct)
  case (1 n)
  show ?case
  proof (cases "n div 2 = 0")
    case True
    with 1(2) have "n = 1" by linarith
    then show ?thesis by (simp add: bitLength.simps)
  next
    case False
    with 1 have ih: "2 ^ (bitLength (n div 2) - 1) \<le> n div 2" by simp
    from False have "bitLength (n div 2) \<noteq> 0"
      by (simp add: bitLength.simps [of "n div 2"])
    then have "(2::nat) ^ bitLength (n div 2) = 2 * 2 ^ (bitLength (n div 2) - 1)"
      by (cases "bitLength (n div 2)") simp_all
    with ih have "2 ^ bitLength (n div 2) \<le> n" by linarith
    with 1(2) show ?thesis by (simp add: bitLength.simps [of n])
  qed
qed

text \<open>
  Above \<open>2 ^ 53\<close> at least one bit is dropped, and what is kept is a significand of
  exactly 53 bits.
\<close>

lemma round_pieces:
  assumes "2 ^ 53 \<le> n"
  defines "e \<equiv> bitLength n - 53"
  shows "1 \<le> e" and "bitLength n = e + 53"
    and "2 ^ 52 \<le> n div 2 ^ e" and "n div 2 ^ e < 2 ^ 53"
proof -
  from assms(1) bitLength_upper [of n] have "(2::nat) ^ 53 < 2 ^ bitLength n"
    by linarith
  then have L: "53 < bitLength n"
    by (simp only: power_strict_increasing_iff one_less_numeral_iff semiring_norm)
  then show "1 \<le> e" and eq: "bitLength n = e + 53"
    by (simp_all add: e_def)
  from assms(1) have "n \<noteq> 0" by auto
  from bitLength_lower [OF this] eq have "2 ^ (e + 52) \<le> n"
    by (simp add: add.commute)
  then have "2 ^ 52 * 2 ^ e \<le> n" by (simp add: power_add mult.commute)
  then show "2 ^ 52 \<le> n div 2 ^ e"
    by (simp add: less_eq_div_iff_mult_less_eq)
  from bitLength_upper [of n] eq have "n < 2 ^ 53 * 2 ^ e"
    by (simp add: power_add mult.commute)
  then show "n div 2 ^ e < 2 ^ 53"
    by (simp add: less_mult_imp_div_less)
qed

lemma roundToDouble_exact: "n < 2 ^ 53 \<Longrightarrow> roundToDouble n = JNum (of_nat n)"
  by (simp add: roundToDouble_def)

lemma roundToDouble_large:
  assumes "2 ^ 53 \<le> n"
  shows "roundToDouble n = JInfinity \<or> (\<exists>v. roundToDouble n = JNum (of_nat v) \<and> 2 ^ 53 \<le> v)"
proof -
  define e where "e = bitLength n - 53"
  define q where "q = n div 2 ^ e"
  define m where "m = (if 2 ^ (e - 1) < n mod 2 ^ e \<or> (n mod 2 ^ e = 2 ^ (e - 1) \<and> odd q)
                       then q + 1 else q)"
  from round_pieces [OF assms] have e: "1 \<le> e" and q: "2 ^ 52 \<le> q"
    by (simp_all add: e_def q_def)
  have "q \<le> m" by (simp add: m_def)
  with q have "2 ^ 52 \<le> m" by linarith
  moreover from e have "(2::nat) \<le> 2 ^ e"
    using power_increasing [of 1 e "2::nat"] by simp
  ultimately have "2 ^ 52 * 2 \<le> m * 2 ^ e"
    by (rule mult_le_mono)
  then have v: "2 ^ 53 \<le> m * 2 ^ e" by simp
  from assms have r: "roundToDouble n =
      (if 2 ^ 1024 \<le> m * 2 ^ e then JInfinity else JNum (of_nat (m * 2 ^ e)))"
    unfolding roundToDouble_def Let_def m_def q_def e_def by simp
  show ?thesis
  proof (cases "(2::nat) ^ 1024 \<le> m * 2 ^ e")
    case True
    with r show ?thesis by simp
  next
    case False
    with r v show ?thesis
      by (intro disjI2 exI [of _ "m * 2 ^ e"]) simp
  qed
qed

text \<open>The rounding is to a nearest double: it is off by at most half the spacing.\<close>

lemma roundToDouble_nearest:
  assumes "2 ^ 53 \<le> n" and "roundToDouble n = JNum (of_nat v)"
  shows "2 ^ (bitLength n - 53) dvd v
       \<and> n \<le> v + 2 ^ (bitLength n - 54) \<and> v \<le> n + 2 ^ (bitLength n - 54)"
proof -
  define e where "e = bitLength n - 53"
  define q where "q = n div 2 ^ e"
  define r where "r = n mod 2 ^ e"
  define m where "m = (if 2 ^ (e - 1) < r \<or> (r = 2 ^ (e - 1) \<and> odd q) then q + 1 else q)"
  from round_pieces [OF assms(1)] have e: "1 \<le> e"
    by (simp add: e_def)
  then have half: "(2::nat) ^ e = 2 * 2 ^ (e - 1)"
    by (cases e) simp_all
  have h: "bitLength n - 54 = e - 1"
    by (simp add: e_def)
  have n: "n = q * 2 ^ e + r"
    using div_mult_mod_eq [of n "2 ^ e"] by (simp add: q_def r_def)
  have r: "r < 2 ^ e"
    by (simp add: r_def)
  from assms have "JNum (of_nat v) =
      (if 2 ^ 1024 \<le> m * 2 ^ e then JInfinity else JNum (of_nat (m * 2 ^ e)))"
    unfolding roundToDouble_def Let_def m_def q_def r_def e_def by simp
  then have "of_nat v = (of_nat (m * 2 ^ e) :: rat)"
    by (simp split: if_splits)
  then have v: "v = m * 2 ^ e"
    by (simp only: of_nat_eq_iff)
  have "n \<le> v + 2 ^ (e - 1) \<and> v \<le> n + 2 ^ (e - 1)"
  proof (cases "2 ^ (e - 1) < r \<or> (r = 2 ^ (e - 1) \<and> odd q)")
    case True
    then have "m = q + 1" by (simp add: m_def)
    then have "v = q * 2 ^ e + 2 ^ e" by (simp add: v algebra_simps)
    with True n r half show ?thesis by auto
  next
    case False
    then have "m = q" by (simp add: m_def)
    then have "v = q * 2 ^ e" by (simp add: v)
    with False n show ?thesis by auto
  qed
  with v show ?thesis
    unfolding h e_def [symmetric] by simp
qed

lemma roundToDouble_overflow:
  assumes "2 ^ 1024 \<le> n"
  shows "roundToDouble n = JInfinity"
proof -
  define e where "e = bitLength n - 53"
  define q where "q = n div 2 ^ e"
  define m where "m = (if 2 ^ (e - 1) < n mod 2 ^ e \<or> (n mod 2 ^ e = 2 ^ (e - 1) \<and> odd q)
                       then q + 1 else q)"
  have "(2::nat) ^ 53 \<le> 2 ^ 1024" by simp
  with assms have big: "2 ^ 53 \<le> n" by linarith
  from round_pieces [OF big] have L: "bitLength n = e + 53" and q: "2 ^ 52 \<le> q"
    by (simp_all add: e_def q_def)
  from assms bitLength_upper [of n] have "(2::nat) ^ 1024 < 2 ^ bitLength n"
    by linarith
  then have "1024 < bitLength n"
    by (simp only: power_strict_increasing_iff one_less_numeral_iff semiring_norm)
  with L have "1024 \<le> 52 + e" by simp
  then have "(2::nat) ^ 1024 \<le> 2 ^ (52 + e)"
    by (rule power_increasing) simp
  also have "\<dots> = 2 ^ 52 * 2 ^ e" by (simp add: power_add)
  also have "\<dots> \<le> q * 2 ^ e" using q by (rule mult_le_mono1)
  also have "\<dots> \<le> m * 2 ^ e" by (rule mult_le_mono1) (simp add: m_def)
  finally have "2 ^ 1024 \<le> m * 2 ^ e" .
  with big show ?thesis
    unfolding roundToDouble_def Let_def m_def q_def e_def by simp
qed

text \<open>A number below \<open>2 ^ 53\<close> is the result for its own decimal numerals only.\<close>

lemma roundToDouble_eq_small_iff:
  assumes "k < 2 ^ 53"
  shows "roundToDouble n = JNum (of_nat k) \<longleftrightarrow> n = k"
proof (cases "n < 2 ^ 53")
  case True
  then show ?thesis by (simp add: roundToDouble_exact)
next
  case False
  then have "2 ^ 53 \<le> n" by simp
  from roundToDouble_large [OF this] assms False show ?thesis
    by auto
qed

lemma parseInt10_eq_iff:
  "parseInt10 ds = JNum 401 \<longleftrightarrow> mathInt ds = 401"
  "parseInt10 ds = JNum 403 \<longleftrightarrow> mathInt ds = 403"
  "parseInt10 ds = JNum 0 \<longleftrightarrow> mathInt ds = 0"
  using roundToDouble_eq_small_iff [of 401 "mathInt ds"]
    roundToDouble_eq_small_iff [of 403 "mathInt ds"]
    roundToDouble_eq_small_iff [of 0 "mathInt ds"]
  by (simp_all add: parseInt10_def)

lemma isNumber_parseInt10: "isNumber (parseInt10 ds)"
proof (cases "mathInt ds < 2 ^ 53")
  case True
  then show ?thesis by (simp add: parseInt10_def roundToDouble_exact)
next
  case False
  then have "2 ^ 53 \<le> mathInt ds" by simp
  from roundToDouble_large [OF this] show ?thesis
    by (auto simp: parseInt10_def)
qed

lemma truthy_parseInt10: "truthy (parseInt10 ds) \<longleftrightarrow> parseInt10 ds \<noteq> JNum 0"
proof (cases "mathInt ds < 2 ^ 53")
  case True
  then show ?thesis by (simp add: parseInt10_def roundToDouble_exact)
next
  case False
  then have "2 ^ 53 \<le> mathInt ds" by simp
  from roundToDouble_large [OF this] show ?thesis
    by (auto simp: parseInt10_def)
qed

text \<open>
  Values beyond \<open>2 ^ 53\<close>: two ties, which go to the even significand (one down, one
  up), a number of 23 digits, and a run of 310 digits, which is beyond every double.
\<close>

lemma parseInt10_tie: "parseInt10 ''9007199254740993'' = JNum 9007199254740992"
  by (simp add: parseInt10_def mathInt_def digitVal_def roundToDouble_def bitLength.simps)

lemma parseInt10_tie_up: "parseInt10 ''9007199254740995'' = JNum 9007199254740996"
  by (simp add: parseInt10_def mathInt_def digitVal_def roundToDouble_def bitLength.simps)

lemma parseInt10_23_digits: "parseInt10 ''99999999999999999999999'' = JNum 99999999999999991611392"
  by (simp add: parseInt10_def mathInt_def digitVal_def roundToDouble_def bitLength.simps)

lemma mathInt_310_digits:
  "mathInt ''1000000000000000000000000000000000000000000000000000000000000000000000000000000000000000000000000000000000000000000000000000000000000000000000000000000000000000000000000000000000000000000000000000000000000000000000000000000000000000000000000000000000000000000000000000000000000000000000000000000000000000000000'' = 10 ^ 309"
  by (simp add: mathInt_def digitVal_def)

lemma parseInt10_310_digits:
  "parseInt10 ''1000000000000000000000000000000000000000000000000000000000000000000000000000000000000000000000000000000000000000000000000000000000000000000000000000000000000000000000000000000000000000000000000000000000000000000000000000000000000000000000000000000000000000000000000000000000000000000000000000000000000000000000'' = JInfinity"
  unfolding parseInt10_def mathInt_310_digits
  by (rule roundToDouble_overflow) simp

section \<open>Unfolding the two functions\<close>

lemma getProp_field: "\<not> nullish v \<Longrightarrow> getProp eng v k = Inr (field v k)"
  by (cases v) (simp_all add: nullish_def)

lemma mapM_getProp:
  "list_all (\<lambda>f. \<not> nullish f) fs \<Longrightarrow>
     mapM (\<lambda>f. getProp eng f k) fs = Inr (map (\<lambda>f. field f k) fs)"
  by (induction fs) (simp_all add: getProp_field)

lemma getFulfillmentOrders_catch_Error:
  "getFulfillmentOrders_catch eng (Error msg) =
     Inr (case statusMatch msg of
            None \<Rightarrow> failure (JNum 500) ''SHOPIFY_FULFILLMENT_FETCH_ERROR'' msg
          | Some ds \<Rightarrow>
              if parseInt10 ds = JNum 401 \<or> parseInt10 ds = JNum 403
              then failure (parseInt10 ds) ''SHOPIFY_ADMIN_AUTH_ERROR'' msg
              else failure (if parseInt10 ds = JNum 0 then JNum 500 else parseInt10 ds)
                     ''SHOPIFY_FULFILLMENT_FETCH_ERROR'' msg)"
  by (simp add: getFulfillmentOrders_catch_def truthy_parseInt10 split: option.splits)

lemma getFulfillments_catch_Error:
  "getFulfillments_catch eng (Error msg) =
     Inr (case statusMatch msg of
            None \<Rightarrow> failure (JNum 500) ''SHOPIFY_FULFILLMENT_FETCH_ERROR'' msg
          | Some ds \<Rightarrow>
              if parseInt10 ds = JNum 401 \<or> parseInt10 ds = JNum 403
              then failure (parseInt10 ds) ''SHOPIFY_ADMIN_AUTH_ERROR'' msg
              else failure (if parseInt10 ds = JNum 0 then JNum 500 else parseInt10 ds)
                     ''SHOPIFY_FULFILLMENT_FETCH_ERROR'' msg)"
  by (simp add: getFulfillments_catch_def truthy_parseInt10 split: option.splits)

lemma getFulfillmentOrders_catch_Error_failure:
  "\<exists>r. getFulfillmentOrders_catch eng (Error msg) = Inr r \<and> field r ''success'' = JBool False"
  by (simp add: getFulfillmentOrders_catch_Error split: option.splits)

lemma getFulfillments_catch_Error_failure:
  "\<exists>r. getFulfillments_catch eng (Error msg) = Inr r \<and> field r ''success'' = JBool False"
  by (simp add: getFulfillments_catch_Error split: option.splits)

lemma getFulfillmentOrders_fails:
  "callShopifyAdmin (''/orders/'' @ orderId @ ''/fulfillments.json'') = Inl error \<Longrightarrow>
     getFulfillmentOrders eng callShopifyAdmin orderId = getFulfillmentOrders_catch eng error"
  by (simp add: getFulfillmentOrders_def)

lemma getFulfillments_fails:
  "callShopifyAdmin (''/orders/'' @ orderId @ ''.json'') = Inl error \<Longrightarrow>
     getFulfillments eng callShopifyAdmin orderId = getFulfillments_catch eng error"
  by (simp add: getFulfillments_def)

lemma getFulfillmentOrders_returns:
  "callShopifyAdmin (''/orders/'' @ orderId @ ''/fulfillments.json'') = Inr response \<Longrightarrow>
     getFulfillmentOrders eng callShopifyAdmin orderId =
       (case getFulfillmentOrders_try eng response of
          Inr result \<Rightarrow> Inr result
        | Inl error \<Rightarrow> getFulfillmentOrders_catch eng error)"
  by (simp add: getFulfillmentOrders_def)

lemma getFulfillments_returns:
  "callShopifyAdmin (''/orders/'' @ orderId @ ''.json'') = Inr response \<Longrightarrow>
     getFulfillments eng callShopifyAdmin orderId =
       (case getFulfillments_try eng response of
          Inr result \<Rightarrow> Inr result
        | Inl error \<Rightarrow> getFulfillments_catch eng error)"
  by (simp add: getFulfillments_def)

section \<open>Successful lookups\<close>

text \<open>
  C1 (as amended). When the collaborator returns a JSON object whose \<^verbatim>\<open>fulfillments\<close>
  field is an array of length N with no element \<^verbatim>\<open>null\<close> (or \<^verbatim>\<open>undefined\<close>),
  \<^verbatim>\<open>getFulfillmentOrders\<close> returns success \<^verbatim>\<open>true\<close>, httpStatus 200, that array
  unchanged, count N, the \<^verbatim>\<open>id\<close> of each element in order, and the returned object as
  rawResponse. \<^verbatim>\<open>getFulfillments\<close> does the same over \<^verbatim>\<open>order.fulfillments\<close> (its
  result also carries orderId and orderName).
\<close>

theorem success_result:
  "(callShopifyAdmin (''/orders/'' @ orderId @ ''/fulfillments.json'') = Inr (JObj kvs) \<longrightarrow>
    map_of kvs ''fulfillments'' = Some (JArr fs) \<longrightarrow>
    list_all (\<lambda>f. \<not> nullish f) fs \<longrightarrow>
      getFulfillmentOrders eng callShopifyAdmin orderId =
        Inr (JObj [(''success'', JBool True),
                   (''httpStatus'', JNum 200),
                   (''fulfillments'', JArr fs),
                   (''count'', JNum (of_nat (length fs))),
                   (''fulfillmentIds'', JArr (map (\<lambda>f. field f ''id'') fs)),
                   (''rawResponse'', JObj kvs)]))
   \<and>
   (callShopifyAdmin (''/orders/'' @ orderId @ ''.json'') = Inr (JObj kvs') \<longrightarrow>
    map_of kvs' ''order'' = Some (JObj okvs) \<longrightarrow>
    map_of okvs ''fulfillments'' = Some (JArr fs') \<longrightarrow>
    list_all (\<lambda>f. \<not> nullish f) fs' \<longrightarrow>
      getFulfillments eng callShopifyAdmin orderId =
        Inr (JObj [(''success'', JBool True),
                   (''httpStatus'', JNum 200),
                   (''fulfillments'', JArr fs'),
                   (''count'', JNum (of_nat (length fs'))),
                   (''fulfillmentIds'', JArr (map (\<lambda>f. field f ''id'') fs')),
                   (''orderId'', field (JObj okvs) ''id''),
                   (''orderName'', field (JObj okvs) ''name''),
                   (''rawResponse'', JObj kvs')]))"
  by (simp add: getFulfillmentOrders_returns getFulfillmentOrders_try_def
        getFulfillments_returns getFulfillments_try_def mapM_getProp)

theorem success_result_witness:
  "shop ''/orders/123/fulfillments.json'' =
     Inr (JObj [(''fulfillments'', JArr [JObj [(''id'', JNum 1)], JObj [(''id'', JNum 2)]])])
   \<and> getFulfillmentOrders v8 shop ''123'' =
       Inr (JObj [(''success'', JBool True),
                  (''httpStatus'', JNum 200),
                  (''fulfillments'', JArr [JObj [(''id'', JNum 1)], JObj [(''id'', JNum 2)]]),
                  (''count'', JNum 2),
                  (''fulfillmentIds'', JArr [JNum 1, JNum 2]),
                  (''rawResponse'',
                   JObj [(''fulfillments'', JArr [JObj [(''id'', JNum 1)], JObj [(''id'', JNum 2)]])])])
   \<and> getFulfillments v8 shop ''123'' =
       Inr (JObj [(''success'', JBool True),
                  (''httpStatus'', JNum 200),
                  (''fulfillments'', JArr [JObj [(''id'', JNum 1)], JObj [(''id'', JNum 2)]]),
                  (''count'', JNum 2),
                  (''fulfillmentIds'', JArr [JNum 1, JNum 2]),
                  (''orderId'', JNum 123),
                  (''orderName'', JStr ''#1001''),
                  (''rawResponse'',
                   JObj [(''order'',
                     JObj [(''id'', JNum 123), (''name'', JStr ''#1001''),
                           (''fulfillments'',
                            JArr [JObj [(''id'', JNum 1)], JObj [(''id'', JNum 2)]])])])])"
proof -
  let ?fs = "[JObj [(''id'', JNum 1)], JObj [(''id'', JNum 2)]]"
  let ?kvs = "[(''fulfillments'', JArr ?fs)]"
  let ?okvs = "[(''id'', JNum 123), (''name'', JStr ''#1001''), (''fulfillments'', JArr ?fs)]"
  let ?kvs' = "[(''order'', JObj ?okvs)]"
  have c1: "shop (''/orders/'' @ ''123'' @ ''/fulfillments.json'') = Inr (JObj ?kvs)"
    by (simp add: shop_def)
  have c2: "shop (''/orders/'' @ ''123'' @ ''.json'') = Inr (JObj ?kvs')"
    by (simp add: shop_def)
  have m1: "map_of ?kvs ''fulfillments'' = Some (JArr ?fs)"
    and m2: "map_of ?kvs' ''order'' = Some (JObj ?okvs)"
    and m3: "map_of ?okvs ''fulfillments'' = Some (JArr ?fs)"
    and n: "list_all (\<lambda>f. \<not> nullish f) ?fs"
    by (simp_all add: nullish_def)
  from success_result [of shop "''123''" ?kvs ?fs v8 ?kvs' ?okvs ?fs] c1 c2 m1 m2 m3 n
  have "getFulfillmentOrders v8 shop ''123'' =
        Inr (JObj [(''success'', JBool True),
                   (''httpStatus'', JNum 200),
                   (''fulfillments'', JArr ?fs),
                   (''count'', JNum (of_nat (length ?fs))),
                   (''fulfillmentIds'', JArr (map (\<lambda>f. field f ''id'') ?fs)),
                   (''rawResponse'', JObj ?kvs)])
    \<and> getFulfillments v8 shop ''123'' =
        Inr (JObj [(''success'', JBool True),
                   (''httpStatus'', JNum 200),
                   (''fulfillments'', JArr ?fs),
                   (''count'', JNum (of_nat (length ?fs))),
                   (''fulfillmentIds'', JArr (map (\<lambda>f. field f ''id'') ?fs)),
                   (''orderId'', field (JObj ?okvs) ''id''),
                   (''orderName'', field (JObj ?okvs) ''name''),
                   (''rawResponse'', JObj ?kvs')])"
    by blast
  then show ?thesis using c1 by simp
qed

text \<open>
  Without the condition on the elements the property fails: reading \<^verbatim>\<open>f.id\<close> of a
  \<^verbatim>\<open>null\<close> element throws inside \<^verbatim>\<open>try\<close>, and the \<^verbatim>\<open>catch\<close> block turns the
  \<^verbatim>\<open>TypeError\<close> into a failure result.
\<close>

theorem null_element_counterexample:
  "getFulfillmentOrders v8 (returning (JObj [(''fulfillments'', JArr [JNull])])) ''123'' =
     Inr (failure (JNum 500) ''SHOPIFY_FULFILLMENT_FETCH_ERROR'' (v8 (ReadOfNullish JNull ''id'')))
   \<and> getFulfillmentOrders v8 (returning (JObj [(''fulfillments'', JArr [JNull])])) ''123'' \<noteq>
     Inr (JObj [(''success'', JBool True),
                (''httpStatus'', JNum 200),
                (''fulfillments'', JArr [JNull]),
                (''count'', JNum 1),
                (''fulfillmentIds'', JArr [field JNull ''id'']),
                (''rawResponse'', JObj [(''fulfillments'', JArr [JNull])])])
   \<and> getFulfillments v8
        (returning (JObj [(''order'', JObj [(''fulfillments'', JArr [JNull])])])) ''123'' =
     Inr (failure (JNum 500) ''SHOPIFY_FULFILLMENT_FETCH_ERROR'' (v8 (ReadOfNullish JNull ''id'')))"
  by (simp add: getFulfillmentOrders_def returning_def getFulfillmentOrders_try_def
        getFulfillmentOrders_catch_def getFulfillments_def getFulfillments_try_def
        getFulfillments_catch_def Let_def  matchHere_def isDigit_def)

text \<open>
  The condition is needed for every array: one \<^verbatim>\<open>null\<close> element anywhere makes the
  result a failure.
\<close>

lemma mapM_getProp_nullish:
  "\<not> list_all (\<lambda>f. \<not> nullish f) fs \<Longrightarrow> \<exists>m. mapM (\<lambda>f. getProp eng f k) fs = Inl (Error m)"
proof (induction fs)
  case Nil
  then show ?case by simp
next
  case (Cons f fs)
  show ?case
  proof (cases "nullish f")
    case True
    then show ?thesis by (auto simp: nullish_def)
  next
    case False
    with Cons show ?thesis
      by (auto simp: getProp_field)
  qed
qed

lemma null_element_fails:
  assumes "callShopifyAdmin (''/orders/'' @ orderId @ ''/fulfillments.json'') = Inr (JObj kvs)"
    and "map_of kvs ''fulfillments'' = Some (JArr fs)"
    and "\<not> list_all (\<lambda>f. \<not> nullish f) fs"
  shows "\<exists>r. getFulfillmentOrders eng callShopifyAdmin orderId = Inr r \<and>
             field r ''success'' = JBool False"
proof -
  from assms(3) obtain m where "mapM (\<lambda>f. getProp eng f ''id'') fs = Inl (Error m)"
    using mapM_getProp_nullish by blast
  with assms(2) have "getFulfillmentOrders_try eng (JObj kvs) = Inl (Error m)"
    by (simp add: getFulfillmentOrders_try_def)
  with assms(1) getFulfillmentOrders_catch_Error_failure [of eng m] show ?thesis
    by (simp add: getFulfillmentOrders_returns)
qed

section \<open>Classification of failures\<close>

text \<open>
  C2. When the collaborator fails with an error whose message's first parenthesized
  decimal number parses to 401 or 403, both functions return success \<^verbatim>\<open>false\<close>, that
  code as httpStatus, error \<^verbatim>\<open>SHOPIFY_ADMIN_AUTH_ERROR\<close>, the message unchanged, no
  fulfillments, count 0 and no fulfillment ids.
\<close>

theorem auth_error_result:
  assumes "first_paren_number msg ds"
    and "parseInt10 ds = JNum 401 \<or> parseInt10 ds = JNum 403"
  shows "(callShopifyAdmin (''/orders/'' @ orderId @ ''/fulfillments.json'') = Inl (Error msg) \<longrightarrow>
            getFulfillmentOrders eng callShopifyAdmin orderId =
              Inr (failure (parseInt10 ds) ''SHOPIFY_ADMIN_AUTH_ERROR'' msg))
       \<and> (callShopifyAdmin (''/orders/'' @ orderId @ ''.json'') = Inl (Error msg) \<longrightarrow>
            getFulfillments eng callShopifyAdmin orderId =
              Inr (failure (parseInt10 ds) ''SHOPIFY_ADMIN_AUTH_ERROR'' msg))"
proof -
  from assms(1) have "statusMatch msg = Some ds"
    by (simp add: statusMatch_Some_iff)
  with assms(2) show ?thesis
    by (auto simp: getFulfillmentOrders_fails getFulfillments_fails
          getFulfillmentOrders_catch_Error getFulfillments_catch_Error)
qed

theorem auth_error_result_witness:
  "first_paren_number ''Shopify Admin API error (401): Invalid API key'' ''401''
   \<and> parseInt10 ''401'' = JNum 401
   \<and> getFulfillments v8 (failing ''Shopify Admin API error (401): Invalid API key'') ''123'' =
       Inr (JObj [(''success'', JBool False),
                  (''httpStatus'', JNum 401),
                  (''error'', JStr ''SHOPIFY_ADMIN_AUTH_ERROR''),
                  (''message'', JStr ''Shopify Admin API error (401): Invalid API key''),
                  (''fulfillments'', JArr []),
                  (''count'', JNum 0),
                  (''fulfillmentIds'', JArr [])])
   \<and> getFulfillmentOrders v8 (failing ''Shopify Admin API error (401): Invalid API key'') ''123'' =
       Inr (JObj [(''success'', JBool False),
                  (''httpStatus'', JNum 401),
                  (''error'', JStr ''SHOPIFY_ADMIN_AUTH_ERROR''),
                  (''message'', JStr ''Shopify Admin API error (401): Invalid API key''),
                  (''fulfillments'', JArr []),
                  (''count'', JNum 0),
                  (''fulfillmentIds'', JArr [])])"
proof -
  let ?msg = "''Shopify Admin API error (401): Invalid API key''"
  have f: "first_paren_number ?msg ''401''"
    unfolding statusMatch_Some_iff [symmetric] by (simp add: matchHere_def isDigit_def)
  have p: "parseInt10 ''401'' = JNum 401"
    by (simp add: parseInt10_def mathInt_def digitVal_def roundToDouble_def)
  from auth_error_result [OF f, of "failing ?msg" "''123''" v8] p
  show ?thesis using f by (simp add: failing_def)
qed

text \<open>
  C3 (as amended). When the collaborator fails with an error whose message's first
  parenthesized decimal number parses to a code that is neither 401 nor 403, both
  functions return error \<^verbatim>\<open>SHOPIFY_FULFILLMENT_FETCH_ERROR\<close>, with httpStatus equal to
  the parsed code (the number \<^verbatim>\<open>parseInt\<close> returns) when the code is not 0, and
  httpStatus 500 when it is 0.
\<close>

theorem fetch_error_status:
  assumes "first_paren_number msg ds"
    and "parseInt10 ds \<noteq> JNum 401" and "parseInt10 ds \<noteq> JNum 403"
  shows "(callShopifyAdmin (''/orders/'' @ orderId @ ''/fulfillments.json'') = Inl (Error msg) \<longrightarrow>
            getFulfillmentOrders eng callShopifyAdmin orderId =
              Inr (failure (if parseInt10 ds = JNum 0 then JNum 500 else parseInt10 ds)
                     ''SHOPIFY_FULFILLMENT_FETCH_ERROR'' msg))
       \<and> (callShopifyAdmin (''/orders/'' @ orderId @ ''.json'') = Inl (Error msg) \<longrightarrow>
            getFulfillments eng callShopifyAdmin orderId =
              Inr (failure (if parseInt10 ds = JNum 0 then JNum 500 else parseInt10 ds)
                     ''SHOPIFY_FULFILLMENT_FETCH_ERROR'' msg))"
proof -
  from assms(1) have "statusMatch msg = Some ds"
    by (simp add: statusMatch_Some_iff)
  with assms(2,3) show ?thesis
    by (simp add: getFulfillmentOrders_fails getFulfillments_fails
          getFulfillmentOrders_catch_Error getFulfillments_catch_Error)
qed

text \<open>
  Three codes: 404; \<open>2 ^ 53 + 1\<close>, which \<^verbatim>\<open>parseInt\<close> rounds to \<open>2 ^ 53\<close>; and a
  code of 310 digits, for which \<^verbatim>\<open>parseInt\<close> returns \<^verbatim>\<open>Infinity\<close>.
\<close>

theorem fetch_error_status_witness:
  "first_paren_number ''Shopify Admin API error (404): Not Found'' ''404''
   \<and> parseInt10 ''404'' = JNum 404
   \<and> getFulfillmentOrders v8 (failing ''Shopify Admin API error (404): Not Found'') ''123'' =
       Inr (failure (JNum 404) ''SHOPIFY_FULFILLMENT_FETCH_ERROR''
              ''Shopify Admin API error (404): Not Found'')
   \<and> getFulfillments v8 (failing ''Shopify Admin API error (404): Not Found'') ''123'' =
       Inr (failure (JNum 404) ''SHOPIFY_FULFILLMENT_FETCH_ERROR''
              ''Shopify Admin API error (404): Not Found'')
   \<and> first_paren_number ''x (9007199254740993) y'' ''9007199254740993''
   \<and> getFulfillmentOrders v8 (failing ''x (9007199254740993) y'') ''123'' =
       Inr (failure (JNum 9007199254740992) ''SHOPIFY_FULFILLMENT_FETCH_ERROR''
              ''x (9007199254740993) y'')
   \<and> getFulfillments v8 (failing ''x (9007199254740993) y'') ''123'' =
       Inr (failure (JNum 9007199254740992) ''SHOPIFY_FULFILLMENT_FETCH_ERROR''
              ''x (9007199254740993) y'')
   \<and> first_paren_number
        ''x (1000000000000000000000000000000000000000000000000000000000000000000000000000000000000000000000000000000000000000000000000000000000000000000000000000000000000000000000000000000000000000000000000000000000000000000000000000000000000000000000000000000000000000000000000000000000000000000000000000000000000000000000) y''
        ''1000000000000000000000000000000000000000000000000000000000000000000000000000000000000000000000000000000000000000000000000000000000000000000000000000000000000000000000000000000000000000000000000000000000000000000000000000000000000000000000000000000000000000000000000000000000000000000000000000000000000000000000''
   \<and> getFulfillmentOrders v8
        (failing
          ''x (1000000000000000000000000000000000000000000000000000000000000000000000000000000000000000000000000000000000000000000000000000000000000000000000000000000000000000000000000000000000000000000000000000000000000000000000000000000000000000000000000000000000000000000000000000000000000000000000000000000000000000000000) y'')
        ''123'' =
       Inr (failure JInfinity ''SHOPIFY_FULFILLMENT_FETCH_ERROR''
          ''x (1000000000000000000000000000000000000000000000000000000000000000000000000000000000000000000000000000000000000000000000000000000000000000000000000000000000000000000000000000000000000000000000000000000000000000000000000000000000000000000000000000000000000000000000000000000000000000000000000000000000000000000000) y'')
   \<and> getFulfillments v8
        (failing
          ''x (1000000000000000000000000000000000000000000000000000000000000000000000000000000000000000000000000000000000000000000000000000000000000000000000000000000000000000000000000000000000000000000000000000000000000000000000000000000000000000000000000000000000000000000000000000000000000000000000000000000000000000000000) y'')
        ''123'' =
       Inr (failure JInfinity ''SHOPIFY_FULFILLMENT_FETCH_ERROR''
          ''x (1000000000000000000000000000000000000000000000000000000000000000000000000000000000000000000000000000000000000000000000000000000000000000000000000000000000000000000000000000000000000000000000000000000000000000000000000000000000000000000000000000000000000000000000000000000000000000000000000000000000000000000000) y'')"
proof -
  let ?m1 = "''Shopify Admin API error (404): Not Found''"
  let ?m2 = "''x (9007199254740993) y''"
  let ?d3 = "''1000000000000000000000000000000000000000000000000000000000000000000000000000000000000000000000000000000000000000000000000000000000000000000000000000000000000000000000000000000000000000000000000000000000000000000000000000000000000000000000000000000000000000000000000000000000000000000000000000000000000000000000''"
  let ?m3 = "''x (1000000000000000000000000000000000000000000000000000000000000000000000000000000000000000000000000000000000000000000000000000000000000000000000000000000000000000000000000000000000000000000000000000000000000000000000000000000000000000000000000000000000000000000000000000000000000000000000000000000000000000000000) y''"
  have f1: "first_paren_number ?m1 ''404''"
    unfolding statusMatch_Some_iff [symmetric] by (simp add: matchHere_def isDigit_def)
  have p1: "parseInt10 ''404'' = JNum 404"
    by (simp add: parseInt10_def mathInt_def digitVal_def roundToDouble_def)
  have f2: "first_paren_number ?m2 ''9007199254740993''"
    unfolding statusMatch_Some_iff [symmetric] by (simp add: matchHere_def isDigit_def)
  have f3: "first_paren_number ?m3 ?d3"
    unfolding statusMatch_Some_iff [symmetric] by (simp add: matchHere_def isDigit_def)
  note p2 = parseInt10_tie and p3 = parseInt10_310_digits
  have c: "\<And>m p. failing m p = Inl (Error m)"
    by (simp add: failing_def)
  from fetch_error_status [OF f1, of "failing ?m1" "''123''" v8] p1 c
  have r1: "getFulfillmentOrders v8 (failing ?m1) ''123'' =
              Inr (failure (JNum 404) ''SHOPIFY_FULFILLMENT_FETCH_ERROR'' ?m1)
          \<and> getFulfillments v8 (failing ?m1) ''123'' =
              Inr (failure (JNum 404) ''SHOPIFY_FULFILLMENT_FETCH_ERROR'' ?m1)"
    by simp
  from fetch_error_status [OF f2, of "failing ?m2" "''123''" v8] p2 c
  have r2: "getFulfillmentOrders v8 (failing ?m2) ''123'' =
              Inr (failure (JNum 9007199254740992) ''SHOPIFY_FULFILLMENT_FETCH_ERROR'' ?m2)
          \<and> getFulfillments v8 (failing ?m2) ''123'' =
              Inr (failure (JNum 9007199254740992) ''SHOPIFY_FULFILLMENT_FETCH_ERROR'' ?m2)"
    by simp
  from fetch_error_status [OF f3, of "failing ?m3" "''123''" v8] c
  have r3: "getFulfillmentOrders v8 (failing ?m3) ''123'' =
              Inr (failure JInfinity ''SHOPIFY_FULFILLMENT_FETCH_ERROR'' ?m3)
          \<and> getFulfillments v8 (failing ?m3) ''123'' =
              Inr (failure JInfinity ''SHOPIFY_FULFILLMENT_FETCH_ERROR'' ?m3)"
    unfolding p3 by simp
  from f1 p1 r1 f2 r2 f3 r3 show ?thesis
    by blast
qed

text \<open>
  A parsed code of 0 is not kept: \<^verbatim>\<open>httpStatus || 500\<close> replaces it by 500.
\<close>

theorem status_zero_counterexample:
  "first_paren_number ''Shopify Admin API error (0): no response'' ''0''
   \<and> parseInt10 ''0'' = JNum 0
   \<and> getFulfillmentOrders v8 (failing ''Shopify Admin API error (0): no response'') ''123'' =
       Inr (failure (JNum 500) ''SHOPIFY_FULFILLMENT_FETCH_ERROR''
              ''Shopify Admin API error (0): no response'')
   \<and> getFulfillments v8 (failing ''Shopify Admin API error (0): no response'') ''123'' =
       Inr (failure (JNum 500) ''SHOPIFY_FULFILLMENT_FETCH_ERROR''
              ''Shopify Admin API error (0): no response'')
   \<and> JNum 500 \<noteq> parseInt10 ''0''"
proof -
  let ?msg = "''Shopify Admin API error (0): no response''"
  have f: "first_paren_number ?msg ''0''"
    unfolding statusMatch_Some_iff [symmetric] by (simp add: matchHere_def isDigit_def)
  have p: "parseInt10 ''0'' = JNum 0"
    by (simp add: parseInt10_def mathInt_def digitVal_def roundToDouble_def)
  have "statusMatch ?msg = Some ''0''"
    by (simp add: matchHere_def isDigit_def)
  then show ?thesis using f p
    by (simp add: getFulfillmentOrders_def getFulfillments_def failing_def
          getFulfillmentOrders_catch_def getFulfillments_catch_def)
qed

text \<open>
  C4. When the collaborator fails with an error whose message has no parenthesized
  decimal number, both functions return success \<^verbatim>\<open>false\<close>, httpStatus 500, error
  \<^verbatim>\<open>SHOPIFY_FULFILLMENT_FETCH_ERROR\<close>, the message unchanged, no fulfillments, count 0
  and no fulfillment ids.
\<close>

theorem no_status_result:
  assumes "\<not> has_paren_number msg"
  shows "(callShopifyAdmin (''/orders/'' @ orderId @ ''/fulfillments.json'') = Inl (Error msg) \<longrightarrow>
            getFulfillmentOrders eng callShopifyAdmin orderId =
              Inr (failure (JNum 500) ''SHOPIFY_FULFILLMENT_FETCH_ERROR'' msg))
       \<and> (callShopifyAdmin (''/orders/'' @ orderId @ ''.json'') = Inl (Error msg) \<longrightarrow>
            getFulfillments eng callShopifyAdmin orderId =
              Inr (failure (JNum 500) ''SHOPIFY_FULFILLMENT_FETCH_ERROR'' msg))"
proof -
  from assms have "statusMatch msg = None"
    by (simp add: statusMatch_None_iff)
  then show ?thesis
    by (simp add: getFulfillmentOrders_fails getFulfillments_fails
          getFulfillmentOrders_catch_Error getFulfillments_catch_Error)
qed

theorem no_status_result_witness:
  "\<not> has_paren_number ''network timeout''
   \<and> getFulfillmentOrders v8 (failing ''network timeout'') ''123'' =
       Inr (failure (JNum 500) ''SHOPIFY_FULFILLMENT_FETCH_ERROR'' ''network timeout'')
   \<and> getFulfillments v8 (failing ''network timeout'') ''123'' =
       Inr (failure (JNum 500) ''SHOPIFY_FULFILLMENT_FETCH_ERROR'' ''network timeout'')"
proof -
  have h: "\<not> has_paren_number ''network timeout''"
    unfolding statusMatch_None_iff [symmetric] by (simp add: matchHere_def)
  from no_status_result [OF h, of "failing ''network timeout''" "''123''" v8]
  show ?thesis using h by (simp add: failing_def)
qed

section \<open>No exception reaches the caller\<close>

text \<open>
  Whatever the body of \<^verbatim>\<open>try\<close> throws by itself is a \<^verbatim>\<open>TypeError\<close> with the engine's
  message.
\<close>

lemma getProp_throws_Error: "getProp eng v k = Inl e \<Longrightarrow> \<exists>te. e = Error (eng te)"
  by (cases v) auto

lemma mapM_getProp_throws_Error:
  "mapM (\<lambda>f. getProp eng f k) xs = Inl e \<Longrightarrow> \<exists>te. e = Error (eng te)"
  by (induction xs arbitrary: e)
     (auto split: sum.splits dest: getProp_throws_Error)

lemma mapIds_throws_Error: "mapIds eng callee v = Inl e \<Longrightarrow> \<exists>te. e = Error (eng te)"
  by (cases v) (auto split: sum.splits dest: mapM_getProp_throws_Error)

lemma getFulfillmentOrders_try_throws_Error:
  "getFulfillmentOrders_try eng response = Inl e \<Longrightarrow> \<exists>te. e = Error (eng te)"
  unfolding getFulfillmentOrders_try_def
  by (auto split: sum.splits if_splits dest: getProp_throws_Error mapIds_throws_Error)

lemma getFulfillments_try_throws_Error:
  "getFulfillments_try eng response = Inl e \<Longrightarrow> \<exists>te. e = Error (eng te)"
  unfolding getFulfillments_try_def Let_def
  by (auto split: sum.splits dest: getProp_throws_Error mapIds_throws_Error)

text \<open>What the body of \<^verbatim>\<open>try\<close> returns, when it returns.\<close>

lemma getProp_Inr: "getProp eng v k = Inr x \<Longrightarrow> x = field v k"
  by (cases v) auto

lemma mapM_getProp_Inr:
  "mapM (\<lambda>f. getProp eng f k) xs = Inr ys \<Longrightarrow> ys = map (\<lambda>f. field f k) xs"
  by (induction xs arbitrary: ys) (auto split: sum.splits dest: getProp_Inr)

lemma mapIds_Inr:
  "mapIds eng callee v = Inr ids \<Longrightarrow>
     \<exists>xs. v = JArr xs \<and> ids = JArr (map (\<lambda>f. field f ''id'') xs)"
  by (cases v) (auto split: sum.splits dest: mapM_getProp_Inr)

lemma getFulfillmentOrders_try_Inr:
  assumes "getFulfillmentOrders_try eng response = Inr r"
  shows "\<exists>xs. r = JObj [(''success'', JBool True),
                        (''httpStatus'', JNum 200),
                        (''fulfillments'', JArr xs),
                        (''count'', JNum (of_nat (length xs))),
                        (''fulfillmentIds'', JArr (map (\<lambda>f. field f ''id'') xs)),
                        (''rawResponse'', response)]"
proof -
  from assms obtain fs where fs: "getProp eng response ''fulfillments'' = Inr fs"
    unfolding getFulfillmentOrders_try_def by (auto split: sum.splits)
  show ?thesis
  proof (cases "truthy fs")
    case True
    with assms fs obtain ids where ids: "mapIds eng ''response.fulfillments.map'' fs = Inr ids"
      unfolding getFulfillmentOrders_try_def by (auto split: sum.splits)
    from mapIds_Inr [OF this] obtain xs
      where "fs = JArr xs" "ids = JArr (map (\<lambda>f. field f ''id'') xs)"
      by blast
    with assms fs ids show ?thesis
      unfolding getFulfillmentOrders_try_def by auto
  next
    case False
    with assms fs have "r = JObj [(''success'', JBool True),
                        (''httpStatus'', JNum 200),
                        (''fulfillments'', JArr []),
                        (''count'', JNum (of_nat (length ([] :: jsval list)))),
                        (''fulfillmentIds'', JArr (map (\<lambda>f. field f ''id'') [])),
                        (''rawResponse'', response)]"
      unfolding getFulfillmentOrders_try_def by auto
    then show ?thesis by blast
  qed
qed

lemma getFulfillments_try_Inr:
  assumes "getFulfillments_try eng response = Inr r"
  shows "\<exists>xs oid oname.
           r = JObj [(''success'', JBool True),
                     (''httpStatus'', JNum 200),
                     (''fulfillments'', JArr xs),
                     (''count'', JNum (of_nat (length xs))),
                     (''fulfillmentIds'', JArr (map (\<lambda>f. field f ''id'') xs)),
                     (''orderId'', oid),
                     (''orderName'', oname),
                     (''rawResponse'', response)]"
proof -
  from assms obtain fulfillments cnt ids oid oname
    where ids: "mapIds eng ''fulfillments.map'' fulfillments = Inr ids"
      and cnt: "getProp eng fulfillments ''length'' = Inr cnt"
      and r: "r = JObj [(''success'', JBool True),
                     (''httpStatus'', JNum 200),
                     (''fulfillments'', fulfillments),
                     (''count'', cnt),
                     (''fulfillmentIds'', ids),
                     (''orderId'', oid),
                     (''orderName'', oname),
                     (''rawResponse'', response)]"
    unfolding getFulfillments_try_def Let_def by (auto split: sum.splits)
  from mapIds_Inr [OF ids] obtain xs
    where "fulfillments = JArr xs" "ids = JArr (map (\<lambda>f. field f ''id'') xs)"
    by blast
  with cnt r show ?thesis by auto
qed

text \<open>What the \<^verbatim>\<open>catch\<close> block makes of an \<^verbatim>\<open>Error\<close>.\<close>

lemma getFulfillmentOrders_catch_Error_shape:
  "\<exists>status code.
     getFulfillmentOrders_catch eng (Error msg) = Inr (failure status code msg)
   \<and> isNumber status \<and> truthy status
   \<and> (code = ''SHOPIFY_ADMIN_AUTH_ERROR'' \<or> code = ''SHOPIFY_FULFILLMENT_FETCH_ERROR'')"
proof (cases "statusMatch msg")
  case None
  then show ?thesis by (simp add: getFulfillmentOrders_catch_Error)
next
  case (Some ds)
  show ?thesis
  proof (cases "parseInt10 ds = JNum 401 \<or> parseInt10 ds = JNum 403")
    case True
    with Some show ?thesis
      by (auto simp: getFulfillmentOrders_catch_Error)
  next
    case False
    with Some isNumber_parseInt10 [of ds] truthy_parseInt10 [of ds] show ?thesis
      by (simp add: getFulfillmentOrders_catch_Error)
  qed
qed

lemma getFulfillments_catch_Error_shape:
  "\<exists>status code.
     getFulfillments_catch eng (Error msg) = Inr (failure status code msg)
   \<and> isNumber status \<and> truthy status
   \<and> (code = ''SHOPIFY_ADMIN_AUTH_ERROR'' \<or> code = ''SHOPIFY_FULFILLMENT_FETCH_ERROR'')"
proof (cases "statusMatch msg")
  case None
  then show ?thesis by (simp add: getFulfillments_catch_Error)
next
  case (Some ds)
  show ?thesis
  proof (cases "parseInt10 ds = JNum 401 \<or> parseInt10 ds = JNum 403")
    case True
    with Some show ?thesis
      by (auto simp: getFulfillments_catch_Error)
  next
    case False
    with Some isNumber_parseInt10 [of ds] truthy_parseInt10 [of ds] show ?thesis
      by (simp add: getFulfillments_catch_Error)
  qed
qed

text \<open>
  C5. Whatever the collaborator returns, and whatever the message of the \<^verbatim>\<open>Error\<close> it
  fails with, each function returns a structured result and throws nothing. When the
  collaborator failed, the result is a failure: success \<^verbatim>\<open>false\<close>, a non-zero number as
  httpStatus, one of the two error codes, the collaborator's message, no fulfillments,
  count 0 and no ids. When the collaborator returned, the result is either a success
  (success \<^verbatim>\<open>true\<close>, httpStatus 200, an array of fulfillments, its length, its ids and
  the response) or such a failure, carrying the message of a \<^verbatim>\<open>TypeError\<close> raised on the
  response.
\<close>

theorem never_throws:
  "(callShopifyAdmin (''/orders/'' @ orderId @ ''/fulfillments.json'') = Inr response \<longrightarrow>
      (\<exists>xs. getFulfillmentOrders eng callShopifyAdmin orderId =
         Inr (JObj [(''success'', JBool True),
                    (''httpStatus'', JNum 200),
                    (''fulfillments'', JArr xs),
                    (''count'', JNum (of_nat (length xs))),
                    (''fulfillmentIds'', JArr (map (\<lambda>f. field f ''id'') xs)),
                    (''rawResponse'', response)]))
    \<or> (\<exists>te status code.
         getFulfillmentOrders eng callShopifyAdmin orderId = Inr (failure status code (eng te))
       \<and> isNumber status \<and> truthy status
       \<and> (code = ''SHOPIFY_ADMIN_AUTH_ERROR'' \<or> code = ''SHOPIFY_FULFILLMENT_FETCH_ERROR'')))
   \<and>
   (callShopifyAdmin (''/orders/'' @ orderId @ ''/fulfillments.json'') = Inl (Error msg) \<longrightarrow>
      (\<exists>status code.
         getFulfillmentOrders eng callShopifyAdmin orderId = Inr (failure status code msg)
       \<and> isNumber status \<and> truthy status
       \<and> (code = ''SHOPIFY_ADMIN_AUTH_ERROR'' \<or> code = ''SHOPIFY_FULFILLMENT_FETCH_ERROR'')))
   \<and>
   (callShopifyAdmin (''/orders/'' @ orderId @ ''.json'') = Inr response' \<longrightarrow>
      (\<exists>xs oid oname. getFulfillments eng callShopifyAdmin orderId =
         Inr (JObj [(''success'', JBool True),
                    (''httpStatus'', JNum 200),
                    (''fulfillments'', JArr xs),
                    (''count'', JNum (of_nat (length xs))),
                    (''fulfillmentIds'', JArr (map (\<lambda>f. field f ''id'') xs)),
                    (''orderId'', oid),
                    (''orderName'', oname),
                    (''rawResponse'', response')]))
    \<or> (\<exists>te status code.
         getFulfillments eng callShopifyAdmin orderId = Inr (failure status code (eng te))
       \<and> isNumber status \<and> truthy status
       \<and> (code = ''SHOPIFY_ADMIN_AUTH_ERROR'' \<or> code = ''SHOPIFY_FULFILLMENT_FETCH_ERROR'')))
   \<and>
   (callShopifyAdmin (''/orders/'' @ orderId @ ''.json'') = Inl (Error msg') \<longrightarrow>
      (\<exists>status code.
         getFulfillments eng callShopifyAdmin orderId = Inr (failure status code msg')
       \<and> isNumber status \<and> truthy status
       \<and> (code = ''SHOPIFY_ADMIN_AUTH_ERROR'' \<or> code = ''SHOPIFY_FULFILLMENT_FETCH_ERROR'')))"
proof (intro conjI impI)
  assume c: "callShopifyAdmin (''/orders/'' @ orderId @ ''/fulfillments.json'') = Inr response"
  show "(\<exists>xs. getFulfillmentOrders eng callShopifyAdmin orderId =
         Inr (JObj [(''success'', JBool True),
                    (''httpStatus'', JNum 200),
                    (''fulfillments'', JArr xs),
                    (''count'', JNum (of_nat (length xs))),
                    (''fulfillmentIds'', JArr (map (\<lambda>f. field f ''id'') xs)),
                    (''rawResponse'', response)]))
    \<or> (\<exists>te status code.
         getFulfillmentOrders eng callShopifyAdmin orderId = Inr (failure status code (eng te))
       \<and> isNumber status \<and> truthy status
       \<and> (code = ''SHOPIFY_ADMIN_AUTH_ERROR'' \<or> code = ''SHOPIFY_FULFILLMENT_FETCH_ERROR''))"
  proof (cases "getFulfillmentOrders_try eng response")
    case (Inr r)
    from getFulfillmentOrders_try_Inr [OF this] Inr c show ?thesis
      by (auto simp: getFulfillmentOrders_returns)
  next
    case (Inl e)
    then obtain te where "e = Error (eng te)"
      using getFulfillmentOrders_try_throws_Error by blast
    with Inl c have "getFulfillmentOrders eng callShopifyAdmin orderId =
        getFulfillmentOrders_catch eng (Error (eng te))"
      by (simp add: getFulfillmentOrders_returns)
    with getFulfillmentOrders_catch_Error_shape [of eng "eng te"] show ?thesis
      by metis
  qed
next
  assume "callShopifyAdmin (''/orders/'' @ orderId @ ''/fulfillments.json'') = Inl (Error msg)"
  then have "getFulfillmentOrders eng callShopifyAdmin orderId =
      getFulfillmentOrders_catch eng (Error msg)"
    by (rule getFulfillmentOrders_fails)
  with getFulfillmentOrders_catch_Error_shape [of eng msg]
  show "\<exists>status code.
         getFulfillmentOrders eng callShopifyAdmin orderId = Inr (failure status code msg)
       \<and> isNumber status \<and> truthy status
       \<and> (code = ''SHOPIFY_ADMIN_AUTH_ERROR'' \<or> code = ''SHOPIFY_FULFILLMENT_FETCH_ERROR'')"
    by simp
next
  assume c: "callShopifyAdmin (''/orders/'' @ orderId @ ''.json'') = Inr response'"
  show "(\<exists>xs oid oname. getFulfillments eng callShopifyAdmin orderId =
         Inr (JObj [(''success'', JBool True),
                    (''httpStatus'', JNum 200),
                    (''fulfillments'', JArr xs),
                    (''count'', JNum (of_nat (length xs))),
                    (''fulfillmentIds'', JArr (map (\<lambda>f. field f ''id'') xs)),
                    (''orderId'', oid),
                    (''orderName'', oname),
                    (''rawResponse'', response')]))
    \<or> (\<exists>te status code.
         getFulfillments eng callShopifyAdmin orderId = Inr (failure status code (eng te))
       \<and> isNumber status \<and> truthy status
       \<and> (code = ''SHOPIFY_ADMIN_AUTH_ERROR'' \<or> code = ''SHOPIFY_FULFILLMENT_FETCH_ERROR''))"
  proof (cases "getFulfillments_try eng response'")
    case (Inr r)
    from getFulfillments_try_Inr [OF this] Inr c show ?thesis
      by (auto simp: getFulfillments_returns)
  next
    case (Inl e)
    then obtain te where "e = Error (eng te)"
      using getFulfillments_try_throws_Error by blast
    with Inl c have "getFulfillments eng callShopifyAdmin orderId =
        getFulfillments_catch eng (Error (eng te))"
      by (simp add: getFulfillments_returns)
    with getFulfillments_catch_Error_shape [of eng "eng te"] show ?thesis
      by metis
  qed
next
  assume "callShopifyAdmin (''/orders/'' @ orderId @ ''.json'') = Inl (Error msg')"
  then have "getFulfillments eng callShopifyAdmin orderId =
      getFulfillments_catch eng (Error msg')"
    by (rule getFulfillments_fails)
  with getFulfillments_catch_Error_shape [of eng msg']
  show "\<exists>status code.
         getFulfillments eng callShopifyAdmin orderId = Inr (failure status code msg')
       \<and> isNumber status \<and> truthy status
       \<and> (code = ''SHOPIFY_ADMIN_AUTH_ERROR'' \<or> code = ''SHOPIFY_FULFILLMENT_FETCH_ERROR'')"
    by simp
qed

theorem never_throws_witness:
  "returning JNull (''/orders/'' @ ''123'' @ ''/fulfillments.json'') = Inr JNull
   \<and> getFulfillmentOrders v8 (returning JNull) ''123'' =
       Inr (failure (JNum 500) ''SHOPIFY_FULFILLMENT_FETCH_ERROR''
              (v8 (ReadOfNullish JNull ''fulfillments'')))
   \<and> (\<exists>te status code.
         getFulfillmentOrders v8 (returning JNull) ''123'' = Inr (failure status code (v8 te))
       \<and> isNumber status \<and> truthy status
       \<and> (code = ''SHOPIFY_ADMIN_AUTH_ERROR'' \<or> code = ''SHOPIFY_FULFILLMENT_FETCH_ERROR''))
   \<and> failing ''network timeout'' (''/orders/'' @ ''123'' @ ''.json'') = Inl (Error ''network timeout'')
   \<and> getFulfillments v8 (failing ''network timeout'') ''123'' =
       Inr (failure (JNum 500) ''SHOPIFY_FULFILLMENT_FETCH_ERROR'' ''network timeout'')
   \<and> (\<exists>status code.
         getFulfillments v8 (failing ''network timeout'') ''123'' =
           Inr (failure status code ''network timeout'')
       \<and> isNumber status \<and> truthy status
       \<and> (code = ''SHOPIFY_ADMIN_AUTH_ERROR'' \<or> code = ''SHOPIFY_FULFILLMENT_FETCH_ERROR''))
   \<and> shop (''/orders/'' @ ''123'' @ ''/fulfillments.json'') =
       Inr (JObj [(''fulfillments'', JArr [JObj [(''id'', JNum 1)], JObj [(''id'', JNum 2)]])])
   \<and> (\<exists>xs. getFulfillmentOrders v8 shop ''123'' =
         Inr (JObj [(''success'', JBool True),
                    (''httpStatus'', JNum 200),
                    (''fulfillments'', JArr xs),
                    (''count'', JNum (of_nat (length xs))),
                    (''fulfillmentIds'', JArr (map (\<lambda>f. field f ''id'') xs)),
                    (''rawResponse'',
                     JObj [(''fulfillments'',
                            JArr [JObj [(''id'', JNum 1)], JObj [(''id'', JNum 2)]])])]))"
proof -
  let ?resp = "JObj [(''fulfillments'', JArr [JObj [(''id'', JNum 1)], JObj [(''id'', JNum 2)]])]"
  have a: "returning JNull (''/orders/'' @ ''123'' @ ''/fulfillments.json'') = Inr JNull"
    by (simp add: returning_def)
  have b: "failing ''network timeout'' (''/orders/'' @ ''123'' @ ''.json'') =
             Inl (Error ''network timeout'')"
    by (simp add: failing_def)
  have c: "shop (''/orders/'' @ ''123'' @ ''/fulfillments.json'') = Inr ?resp"
    by (simp add: shop_def)
  have ra: "getFulfillmentOrders v8 (returning JNull) ''123'' =
       Inr (failure (JNum 500) ''SHOPIFY_FULFILLMENT_FETCH_ERROR''
              (v8 (ReadOfNullish JNull ''fulfillments'')))"
    by (simp add: getFulfillmentOrders_def returning_def getFulfillmentOrders_try_def
          getFulfillmentOrders_catch_def matchHere_def isDigit_def)
  have rb: "getFulfillments v8 (failing ''network timeout'') ''123'' =
       Inr (failure (JNum 500) ''SHOPIFY_FULFILLMENT_FETCH_ERROR'' ''network timeout'')"
    by (simp add: getFulfillments_def failing_def getFulfillments_catch_def matchHere_def)
  from never_throws [of "returning JNull" "''123''" JNull v8] a ra
  have 1: "\<exists>te status code.
         getFulfillmentOrders v8 (returning JNull) ''123'' = Inr (failure status code (v8 te))
       \<and> isNumber status \<and> truthy status
       \<and> (code = ''SHOPIFY_ADMIN_AUTH_ERROR'' \<or> code = ''SHOPIFY_FULFILLMENT_FETCH_ERROR'')"
    by auto
  from never_throws [of "failing ''network timeout''" "''123''" _ v8 _ _ "''network timeout''"] b
  have 2: "\<exists>status code.
         getFulfillments v8 (failing ''network timeout'') ''123'' =
           Inr (failure status code ''network timeout'')
       \<and> isNumber status \<and> truthy status
       \<and> (code = ''SHOPIFY_ADMIN_AUTH_ERROR'' \<or> code = ''SHOPIFY_FULFILLMENT_FETCH_ERROR'')"
    by blast
  have nf: "\<And>status code m. getFulfillmentOrders v8 shop ''123'' \<noteq> Inr (failure status code m)"
    by (simp add: getFulfillmentOrders_def shop_def getFulfillmentOrders_try_def)
  from never_throws [of shop "''123''" ?resp v8] c nf
  have 3: "\<exists>xs. getFulfillmentOrders v8 shop ''123'' =
         Inr (JObj [(''success'', JBool True),
                    (''httpStatus'', JNum 200),
                    (''fulfillments'', JArr xs),
                    (''count'', JNum (of_nat (length xs))),
                    (''fulfillmentIds'', JArr (map (\<lambda>f. field f ''id'') xs)),
                    (''rawResponse'', ?resp)])"
    by blast
  from a ra 1 b rb 2 c 3 show ?thesis
    by blast
qed

text \<open>
  The property is about failures that carry an \<^verbatim>\<open>Error\<close>: the \<^verbatim>\<open>catch\<close> block reads
  \<^verbatim>\<open>error.message.match\<close>, so a thrown \<^verbatim>\<open>null\<close>, or a thrown string, makes the
  \<^verbatim>\<open>catch\<close> block itself throw.
\<close>

lemma non_error_throw_escapes:
  "getFulfillmentOrders eng (throwing JNull) orderId =
     Inl (Error (eng (ReadOfNullish JNull ''message'')))"
  "getFulfillments eng (throwing (JStr ''boom'')) orderId =
     Inl (Error (eng (ReadOfNullish JUndefined ''match'')))"
  by (simp_all add: getFulfillmentOrders_def getFulfillments_def throwing_def
        getFulfillmentOrders_catch_def getFulfillments_catch_def)


section \<open>Responses without fulfillments, and the order's id and name\<close>

text \<open>
  C6. When the collaborator returns a JSON object with no \<^verbatim>\<open>fulfillments\<close> field,
  \<^verbatim>\<open>getFulfillmentOrders\<close> returns a success with no fulfillments, count 0 and no
  fulfillment ids; so does \<^verbatim>\<open>getFulfillments\<close> when the returned object has no
  \<^verbatim>\<open>order\<close> field, and when its order has no \<^verbatim>\<open>fulfillments\<close> field.
\<close>

theorem missing_fulfillments_result:
  "(callShopifyAdmin (''/orders/'' @ orderId @ ''/fulfillments.json'') = Inr (JObj kvs) \<longrightarrow>
    map_of kvs ''fulfillments'' = None \<longrightarrow>
      getFulfillmentOrders eng callShopifyAdmin orderId =
        Inr (JObj [(''success'', JBool True),
                   (''httpStatus'', JNum 200),
                   (''fulfillments'', JArr []),
                   (''count'', JNum 0),
                   (''fulfillmentIds'', JArr []),
                   (''rawResponse'', JObj kvs)]))
   \<and>
   (callShopifyAdmin (''/orders/'' @ orderId @ ''.json'') = Inr (JObj kvs') \<longrightarrow>
    map_of kvs' ''order'' = None \<longrightarrow>
      getFulfillments eng callShopifyAdmin orderId =
        Inr (JObj [(''success'', JBool True),
                   (''httpStatus'', JNum 200),
                   (''fulfillments'', JArr []),
                   (''count'', JNum 0),
                   (''fulfillmentIds'', JArr []),
                   (''orderId'', JUndefined),
                   (''orderName'', JUndefined),
                   (''rawResponse'', JObj kvs')]))
   \<and>
   (callShopifyAdmin (''/orders/'' @ orderId @ ''.json'') = Inr (JObj kvs') \<longrightarrow>
    map_of kvs' ''order'' = Some (JObj okvs) \<longrightarrow>
    map_of okvs ''fulfillments'' = None \<longrightarrow>
      getFulfillments eng callShopifyAdmin orderId =
        Inr (JObj [(''success'', JBool True),
                   (''httpStatus'', JNum 200),
                   (''fulfillments'', JArr []),
                   (''count'', JNum 0),
                   (''fulfillmentIds'', JArr []),
                   (''orderId'', field (JObj okvs) ''id''),
                   (''orderName'', field (JObj okvs) ''name''),
                   (''rawResponse'', JObj kvs')]))"
  by (simp add: getFulfillmentOrders_returns getFulfillmentOrders_try_def
        getFulfillments_returns getFulfillments_try_def Let_def)

theorem missing_fulfillments_result_witness:
  "getFulfillmentOrders v8 (returning (JObj [])) ''123'' =
     Inr (JObj [(''success'', JBool True),
                (''httpStatus'', JNum 200),
                (''fulfillments'', JArr []),
                (''count'', JNum 0),
                (''fulfillmentIds'', JArr []),
                (''rawResponse'', JObj [])])
   \<and> getFulfillments v8 (returning (JObj [])) ''123'' =
     Inr (JObj [(''success'', JBool True),
                (''httpStatus'', JNum 200),
                (''fulfillments'', JArr []),
                (''count'', JNum 0),
                (''fulfillmentIds'', JArr []),
                (''orderId'', JUndefined),
                (''orderName'', JUndefined),
                (''rawResponse'', JObj [])])
   \<and> getFulfillments v8
         (returning (JObj [(''order'', JObj [(''id'', JNum 7), (''name'', JStr ''#7'')])])) ''7'' =
     Inr (JObj [(''success'', JBool True),
                (''httpStatus'', JNum 200),
                (''fulfillments'', JArr []),
                (''count'', JNum 0),
                (''fulfillmentIds'', JArr []),
                (''orderId'', JNum 7),
                (''orderName'', JStr ''#7''),
                (''rawResponse'', JObj [(''order'', JObj [(''id'', JNum 7), (''name'', JStr ''#7'')])])])"
proof -
  let ?okvs = "[(''id'', JNum 7), (''name'', JStr ''#7'')]"
  let ?kvs = "[(''order'', JObj ?okvs)]"
  have r: "\<And>v p. returning v p = Inr v"
    by (simp add: returning_def)
  have m: "map_of ([] :: (string \<times> jsval) list) ''fulfillments'' = None"
    "map_of ([] :: (string \<times> jsval) list) ''order'' = None"
    "map_of ?kvs ''order'' = Some (JObj ?okvs)"
    "map_of ?okvs ''fulfillments'' = None"
    by simp_all
  from missing_fulfillments_result [of "returning (JObj [])" "''123''" "[]" v8 "[]" ?okvs] r m
  have 1: "getFulfillmentOrders v8 (returning (JObj [])) ''123'' =
     Inr (JObj [(''success'', JBool True),
                (''httpStatus'', JNum 200),
                (''fulfillments'', JArr []),
                (''count'', JNum 0),
                (''fulfillmentIds'', JArr []),
                (''rawResponse'', JObj [])])"
    and 2: "getFulfillments v8 (returning (JObj [])) ''123'' =
     Inr (JObj [(''success'', JBool True),
                (''httpStatus'', JNum 200),
                (''fulfillments'', JArr []),
                (''count'', JNum 0),
                (''fulfillmentIds'', JArr []),
                (''orderId'', JUndefined),
                (''orderName'', JUndefined),
                (''rawResponse'', JObj [])])"
    by blast+
  from missing_fulfillments_result [of "returning (JObj ?kvs)" "''7''" "[]" v8 ?kvs ?okvs] r m
  have 3: "getFulfillments v8 (returning (JObj ?kvs)) ''7'' =
     Inr (JObj [(''success'', JBool True),
                (''httpStatus'', JNum 200),
                (''fulfillments'', JArr []),
                (''count'', JNum 0),
                (''fulfillmentIds'', JArr []),
                (''orderId'', field (JObj ?okvs) ''id''),
                (''orderName'', field (JObj ?okvs) ''name''),
                (''rawResponse'', JObj ?kvs)])"
    by blast
  from 1 2 3 show ?thesis by simp
qed

text \<open>A result of the \<^verbatim>\<open>catch\<close> block is never a success.\<close>

lemma getFulfillments_catch_not_success:
  "getFulfillments_catch eng error = Inr r \<Longrightarrow> field r ''success'' = JBool False"
  unfolding getFulfillments_catch_def Let_def
  by (auto split: sum.splits if_splits)

lemma falsy_field: "\<not> truthy v \<Longrightarrow> field v ''id'' = JUndefined \<and> field v ''name'' = JUndefined"
  by (cases v) simp_all

lemma getFulfillments_try_order:
  assumes "getFulfillments_try eng response = Inr r"
  shows "field r ''orderId'' = field (field response ''order'') ''id''
       \<and> field r ''orderName'' = field (field response ''order'') ''name''"
proof -
  from assms obtain ro where ro: "getProp eng response ''order'' = Inr ro"
    unfolding getFulfillments_try_def by (auto split: sum.splits)
  then have "\<not> nullish response"
    by (cases response) (auto simp: nullish_def)
  with ro have ro_eq: "ro = field response ''order''"
    by (simp add: getProp_field)
  show ?thesis
  proof (cases "truthy ro")
    case True
    then have nn: "\<not> nullish ro"
      by (cases ro) (auto simp: nullish_def)
    from assms ro True show ?thesis
      unfolding getFulfillments_try_def Let_def ro_eq [symmetric]
      by (auto simp: getProp_field [OF nn] split: sum.splits)
  next
    case False
    with assms ro falsy_field [of ro] show ?thesis
      unfolding getFulfillments_try_def Let_def ro_eq [symmetric]
      by (auto split: sum.splits)
  qed
qed

text \<open>
  C7. Every successful result of \<^verbatim>\<open>getFulfillments\<close> carries as orderId the \<^verbatim>\<open>id\<close>
  field and as orderName the \<^verbatim>\<open>name\<close> field of the order in the returned object; both
  are \<^verbatim>\<open>undefined\<close> when the returned object has no order or an empty one.
\<close>

theorem order_id_and_name:
  assumes "getFulfillments eng callShopifyAdmin orderId = Inr r"
    and "field r ''success'' = JBool True"
  shows "\<exists>response.
           callShopifyAdmin (''/orders/'' @ orderId @ ''.json'') = Inr response
         \<and> field r ''orderId'' = field (field response ''order'') ''id''
         \<and> field r ''orderName'' = field (field response ''order'') ''name''
         \<and> (field response ''order'' = JUndefined \<or> field response ''order'' = JObj [] \<longrightarrow>
              field r ''orderId'' = JUndefined \<and> field r ''orderName'' = JUndefined)"
proof (cases "callShopifyAdmin (''/orders/'' @ orderId @ ''.json'')")
  case (Inl e)
  with assms(1) have "getFulfillments_catch eng e = Inr r"
    by (simp add: getFulfillments_fails)
  with assms(2) show ?thesis
    by (auto dest: getFulfillments_catch_not_success)
next
  case (Inr response)
  have t: "getFulfillments_try eng response = Inr r"
  proof (cases "getFulfillments_try eng response")
    case (Inl e)
    with Inr assms(1) have "getFulfillments_catch eng e = Inr r"
      by (simp add: getFulfillments_returns)
    with assms(2) show ?thesis
      by (auto dest: getFulfillments_catch_not_success)
  next
    case (Inr r')
    with \<open>callShopifyAdmin (''/orders/'' @ orderId @ ''.json'') = Inr response\<close> assms(1)
    show ?thesis by (simp add: getFulfillments_returns)
  qed
  from getFulfillments_try_order [OF t] Inr show ?thesis
    by auto
qed

theorem order_id_and_name_witness:
  "getFulfillments v8 shop ''123'' =
       Inr (JObj [(''success'', JBool True),
                  (''httpStatus'', JNum 200),
                  (''fulfillments'', JArr [JObj [(''id'', JNum 1)], JObj [(''id'', JNum 2)]]),
                  (''count'', JNum 2),
                  (''fulfillmentIds'', JArr [JNum 1, JNum 2]),
                  (''orderId'', JNum 123),
                  (''orderName'', JStr ''#1001''),
                  (''rawResponse'',
                   JObj [(''order'',
                     JObj [(''id'', JNum 123), (''name'', JStr ''#1001''),
                           (''fulfillments'',
                            JArr [JObj [(''id'', JNum 1)], JObj [(''id'', JNum 2)]])])])])
   \<and> (\<exists>response. shop (''/orders/'' @ ''123'' @ ''.json'') = Inr response
         \<and> field (field response ''order'') ''id'' = JNum 123
         \<and> field (field response ''order'') ''name'' = JStr ''#1001'')
   \<and> getFulfillments v8 (returning (JObj [])) ''123'' =
       Inr (JObj [(''success'', JBool True),
                  (''httpStatus'', JNum 200),
                  (''fulfillments'', JArr []),
                  (''count'', JNum 0),
                  (''fulfillmentIds'', JArr []),
                  (''orderId'', JUndefined),
                  (''orderName'', JUndefined),
                  (''rawResponse'', JObj [])])
   \<and> (\<exists>response. returning (JObj []) (''/orders/'' @ ''123'' @ ''.json'') = Inr response
         \<and> field response ''order'' = JUndefined)"
proof -
  let ?r = "JObj [(''success'', JBool True),
                  (''httpStatus'', JNum 200),
                  (''fulfillments'', JArr [JObj [(''id'', JNum 1)], JObj [(''id'', JNum 2)]]),
                  (''count'', JNum 2),
                  (''fulfillmentIds'', JArr [JNum 1, JNum 2]),
                  (''orderId'', JNum 123),
                  (''orderName'', JStr ''#1001''),
                  (''rawResponse'',
                   JObj [(''order'',
                     JObj [(''id'', JNum 123), (''name'', JStr ''#1001''),
                           (''fulfillments'',
                            JArr [JObj [(''id'', JNum 1)], JObj [(''id'', JNum 2)]])])])]"
  let ?r' = "JObj [(''success'', JBool True),
                  (''httpStatus'', JNum 200),
                  (''fulfillments'', JArr []),
                  (''count'', JNum 0),
                  (''fulfillmentIds'', JArr []),
                  (''orderId'', JUndefined),
                  (''orderName'', JUndefined),
                  (''rawResponse'', JObj [])]"
  have g: "getFulfillments v8 shop ''123'' = Inr ?r"
    by (simp add: getFulfillments_def shop_def getFulfillments_try_def Let_def)
  have s: "field ?r ''success'' = JBool True"
    by simp
  have g': "getFulfillments v8 (returning (JObj [])) ''123'' = Inr ?r'"
    by (simp add: getFulfillments_def returning_def getFulfillments_try_def Let_def)
  have s': "field ?r' ''success'' = JBool True"
    by simp
  from order_id_and_name [OF g s]
  have 1: "\<exists>response. shop (''/orders/'' @ ''123'' @ ''.json'') = Inr response
         \<and> field (field response ''order'') ''id'' = JNum 123
         \<and> field (field response ''order'') ''name'' = JStr ''#1001''"
    by auto
  from order_id_and_name [OF g' s']
  have 2: "\<exists>response. returning (JObj []) (''/orders/'' @ ''123'' @ ''.json'') = Inr response
         \<and> field response ''order'' = JUndefined"
    by (auto simp: returning_def)
  from g 1 g' 2 show ?thesis by blast
qed

section \<open>The duplicated classification\<close>

text \<open>The two \<^verbatim>\<open>catch\<close> blocks compute the same function of what was thrown.\<close>

lemma catch_blocks_equal: "getFulfillmentOrders_catch eng error = getFulfillments_catch eng error"
  by (simp add: getFulfillmentOrders_catch_def getFulfillments_catch_def)

text \<open>
  C8. For collaborator failures that carry the same error message, \<^verbatim>\<open>getFulfillmentOrders\<close>
  and \<^verbatim>\<open>getFulfillments\<close> return exactly the same result, and it is a failure.
\<close>

theorem same_classification:
  assumes "callShopifyAdmin (''/orders/'' @ orderId @ ''/fulfillments.json'') = Inl (Error msg)"
    and "callShopifyAdmin' (''/orders/'' @ orderId' @ ''.json'') = Inl (Error msg)"
  shows "getFulfillmentOrders eng callShopifyAdmin orderId =
           getFulfillments eng' callShopifyAdmin' orderId'
       \<and> (\<exists>r. getFulfillments eng' callShopifyAdmin' orderId' = Inr r \<and>
                field r ''success'' = JBool False)"
  using assms getFulfillments_catch_Error_failure [of eng' msg]
  by (simp add: getFulfillmentOrders_fails getFulfillments_fails
        getFulfillmentOrders_catch_Error getFulfillments_catch_Error)

theorem same_classification_witness:
  "getFulfillmentOrders v8 (failing ''Shopify Admin API error (429): Too Many Requests'') ''123'' =
     getFulfillments v8 (failing ''Shopify Admin API error (429): Too Many Requests'') ''456''
   \<and> (\<exists>r. getFulfillments v8 (failing ''Shopify Admin API error (429): Too Many Requests'') ''456'' =
              Inr r \<and> field r ''success'' = JBool False)"
proof -
  let ?msg = "''Shopify Admin API error (429): Too Many Requests''"
  have "failing ?msg (''/orders/'' @ ''123'' @ ''/fulfillments.json'') = Inl (Error ?msg)"
    and "failing ?msg (''/orders/'' @ ''456'' @ ''.json'') = Inl (Error ?msg)"
    by (simp_all add: failing_def)
  then show ?thesis
    by (rule same_classification)
qed

section \<open>Which number decides\<close>

text \<open>
  C9. When the failure message has two or more parenthesized decimal numbers, the status
  both functions extract and classify by is the first of them; the later ones play no
  part.
\<close>

theorem first_number_wins:
  assumes "msg = pre @ ''('' @ ds @ '')'' @ mid @ ''('' @ ds' @ '')'' @ post"
    and "digits ds" and "digits ds'"
    and "\<not> has_paren_number pre"
  shows "statusMatch msg = Some ds
       \<and> (callShopifyAdmin (''/orders/'' @ orderId @ ''/fulfillments.json'') = Inl (Error msg) \<longrightarrow>
            getFulfillmentOrders eng callShopifyAdmin orderId =
              Inr (if parseInt10 ds = JNum 401 \<or> parseInt10 ds = JNum 403
                   then failure (parseInt10 ds) ''SHOPIFY_ADMIN_AUTH_ERROR'' msg
                   else failure (if parseInt10 ds = JNum 0 then JNum 500 else parseInt10 ds)
                          ''SHOPIFY_FULFILLMENT_FETCH_ERROR'' msg))
       \<and> (callShopifyAdmin (''/orders/'' @ orderId @ ''.json'') = Inl (Error msg) \<longrightarrow>
            getFulfillments eng callShopifyAdmin orderId =
              Inr (if parseInt10 ds = JNum 401 \<or> parseInt10 ds = JNum 403
                   then failure (parseInt10 ds) ''SHOPIFY_ADMIN_AUTH_ERROR'' msg
                   else failure (if parseInt10 ds = JNum 0 then JNum 500 else parseInt10 ds)
                          ''SHOPIFY_FULFILLMENT_FETCH_ERROR'' msg))"
proof -
  from assms(1,2,4) have "first_paren_number msg ds"
    unfolding first_paren_number_def by blast
  then have "statusMatch msg = Some ds"
    by (simp add: statusMatch_Some_iff)
  then show ?thesis
    by (simp add: getFulfillmentOrders_fails getFulfillments_fails
          getFulfillmentOrders_catch_Error getFulfillments_catch_Error)
qed

text \<open>
  Two messages whose second number is 401: the first number, 404 in one and
  \<open>2 ^ 53 + 1\<close> in the other, decides, and the result is not an authentication error.
\<close>

theorem first_number_wins_witness:
  "statusMatch ''Shopify Admin API error (404): order (401) not found'' = Some ''404''
   \<and> getFulfillmentOrders v8
        (failing ''Shopify Admin API error (404): order (401) not found'') ''123'' =
       Inr (failure (JNum 404) ''SHOPIFY_FULFILLMENT_FETCH_ERROR''
              ''Shopify Admin API error (404): order (401) not found'')
   \<and> getFulfillments v8
        (failing ''Shopify Admin API error (404): order (401) not found'') ''123'' =
       Inr (failure (JNum 404) ''SHOPIFY_FULFILLMENT_FETCH_ERROR''
              ''Shopify Admin API error (404): order (401) not found'')
   \<and> statusMatch ''x (9007199254740993) y (401)'' = Some ''9007199254740993''
   \<and> getFulfillmentOrders v8 (failing ''x (9007199254740993) y (401)'') ''123'' =
       Inr (failure (JNum 9007199254740992) ''SHOPIFY_FULFILLMENT_FETCH_ERROR''
              ''x (9007199254740993) y (401)'')
   \<and> getFulfillments v8 (failing ''x (9007199254740993) y (401)'') ''123'' =
       Inr (failure (JNum 9007199254740992) ''SHOPIFY_FULFILLMENT_FETCH_ERROR''
              ''x (9007199254740993) y (401)'')"
proof -
  let ?m1 = "''Shopify Admin API error (404): order (401) not found''"
  let ?m2 = "''x (9007199254740993) y (401)''"
  have e1: "?m1 = ''Shopify Admin API error '' @ ''('' @ ''404'' @ '')'' @ '': order '' @
             ''('' @ ''401'' @ '')'' @ '' not found''"
    by simp
  have e2: "?m2 = ''x '' @ ''('' @ ''9007199254740993'' @ '')'' @ '' y '' @
             ''('' @ ''401'' @ '')'' @ []"
    by simp
  have d: "digits ''404''" "digits ''401''" "digits ''9007199254740993''"
    by (simp_all add: digits_def isDigit_def)
  have n1: "\<not> has_paren_number ''Shopify Admin API error ''"
    unfolding statusMatch_None_iff [symmetric] by (simp add: matchHere_def)
  have n2: "\<not> has_paren_number ''x ''"
    unfolding statusMatch_None_iff [symmetric] by (simp add: matchHere_def)
  have p1: "parseInt10 ''404'' = JNum 404"
    by (simp add: parseInt10_def mathInt_def digitVal_def roundToDouble_def)
  note p2 = parseInt10_tie
  have c: "\<And>m p. failing m p = Inl (Error m)"
    by (simp add: failing_def)
  from first_number_wins [OF e1 d(1) d(2) n1, of "failing ?m1" "''123''" v8] p1 c
  have r1: "statusMatch ?m1 = Some ''404''
     \<and> getFulfillmentOrders v8 (failing ?m1) ''123'' =
         Inr (failure (JNum 404) ''SHOPIFY_FULFILLMENT_FETCH_ERROR'' ?m1)
     \<and> getFulfillments v8 (failing ?m1) ''123'' =
         Inr (failure (JNum 404) ''SHOPIFY_FULFILLMENT_FETCH_ERROR'' ?m1)"
    by simp
  from first_number_wins [OF e2 d(3) d(2) n2, of "failing ?m2" "''123''" v8] p2 c
  have r2: "statusMatch ?m2 = Some ''9007199254740993''
     \<and> getFulfillmentOrders v8 (failing ?m2) ''123'' =
         Inr (failure (JNum 9007199254740992) ''SHOPIFY_FULFILLMENT_FETCH_ERROR'' ?m2)
     \<and> getFulfillments v8 (failing ?m2) ''123'' =
         Inr (failure (JNum 9007199254740992) ''SHOPIFY_FULFILLMENT_FETCH_ERROR'' ?m2)"
    by simp
  from r1 r2 show ?thesis
    by blast
qed

text \<open>
  C10. The extraction asks for nothing but a parenthesized run of digits: a message whose
  first parenthesized number is \<^verbatim>\<open>(401)\<close> or \<^verbatim>\<open>(403)\<close>, wherever it stands and
  whatever the text around it, is classified \<^verbatim>\<open>SHOPIFY_ADMIN_AUTH_ERROR\<close> by both
  functions.
\<close>

theorem incidental_auth_code:
  assumes "\<not> has_paren_number pre"
    and "code = ''401'' \<or> code = ''403''"
  shows "(callShopifyAdmin (''/orders/'' @ orderId @ ''/fulfillments.json'') =
            Inl (Error (pre @ ''('' @ code @ '')'' @ post)) \<longrightarrow>
            getFulfillmentOrders eng callShopifyAdmin orderId =
              Inr (failure (JNum (if code = ''401'' then 401 else 403)) ''SHOPIFY_ADMIN_AUTH_ERROR''
                     (pre @ ''('' @ code @ '')'' @ post)))
       \<and> (callShopifyAdmin (''/orders/'' @ orderId @ ''.json'') =
            Inl (Error (pre @ ''('' @ code @ '')'' @ post)) \<longrightarrow>
            getFulfillments eng callShopifyAdmin orderId =
              Inr (failure (JNum (if code = ''401'' then 401 else 403)) ''SHOPIFY_ADMIN_AUTH_ERROR''
                     (pre @ ''('' @ code @ '')'' @ post)))"
proof -
  from assms(2) have d: "digits code"
    by (auto simp: digits_def isDigit_def)
  with assms(1) have "first_paren_number (pre @ ''('' @ code @ '')'' @ post) code"
    unfolding first_paren_number_def by blast
  then have s: "statusMatch (pre @ ''('' @ code @ '')'' @ post) = Some code"
    by (simp only: statusMatch_Some_iff)
  from assms(2) have "parseInt10 code = JNum (if code = ''401'' then 401 else 403)"
    by (auto simp: parseInt10_def mathInt_def digitVal_def roundToDouble_def)
  with s show ?thesis
    by (simp add: getFulfillmentOrders_fails getFulfillments_fails
          getFulfillmentOrders_catch_Error getFulfillments_catch_Error)
qed

theorem incidental_auth_code_witness:
  "\<not> has_paren_number ''connect ETIMEDOUT after 3 retries ''
   \<and> getFulfillmentOrders v8 (failing ''connect ETIMEDOUT after 3 retries (403) ms'') ''123'' =
       Inr (failure (JNum 403) ''SHOPIFY_ADMIN_AUTH_ERROR''
              ''connect ETIMEDOUT after 3 retries (403) ms'')
   \<and> getFulfillments v8 (failing ''connect ETIMEDOUT after 3 retries (403) ms'') ''123'' =
       Inr (failure (JNum 403) ''SHOPIFY_ADMIN_AUTH_ERROR''
              ''connect ETIMEDOUT after 3 retries (403) ms'')"
proof -
  have n: "\<not> has_paren_number ''connect ETIMEDOUT after 3 retries ''"
    unfolding statusMatch_None_iff [symmetric] by (simp add: matchHere_def)
  have c: "''403'' = ''401'' \<or> ''403'' = ''403''"
    by simp
  from incidental_auth_code [OF n c, of "failing ''connect ETIMEDOUT after 3 retries (403) ms''"
      "''123''" "'' ms''" v8] n
  show ?thesis by (simp add: failing_def)
qed

end
